theory Spec2Isabelle
  imports Main "HOL-Library.Word"
begin

section \<open>Python values\<close>

text \<open>
  The handlers work on decoded JSON: the webhook payload, the responses of the GitHub
  client and the documents of the artifact are all \<^verbatim>\<open>dict[str, Any]\<close>. A value is
  \<^verbatim>\<open>None\<close>, a \<^verbatim>\<open>bool\<close>, an \<^verbatim>\<open>int\<close>, a \<^verbatim>\<open>str\<close>, a \<^verbatim>\<open>list\<close> or a
  \<^verbatim>\<open>dict\<close> with string keys, kept as an association list in insertion order whose
  first binding of a key is the one a lookup finds. Floating-point numbers are not
  part of the model. A \<^verbatim>\<open>str\<close> is a list of characters (code points below 256),
  \<^verbatim>\<open>bytes\<close> is a list of octets.
\<close>

datatype json =
    JNull
  | JBool bool
  | JInt int
  | JStr string
  | JList "json list"
  | JObj "(string \<times> json) list"

type_synonym bytes = "8 word list"

text \<open>
  Exceptions are values. \<open>Raised name\<close> is an exception that comes out of a library
  or of the GitHub client (a malformed archive, malformed JSON, a failed API call).
\<close>

datatype error =
    KeyError string
  | TypeError
  | AttributeError
  | UniqueViolationError
  | Raised string

text \<open>Truthiness, as \<^verbatim>\<open>if x\<close> and \<^verbatim>\<open>not x\<close> test it.\<close>

fun py_truthy :: "json \<Rightarrow> bool" where
  "py_truthy JNull = False"
| "py_truthy (JBool b) = b"
| "py_truthy (JInt n) = (n \<noteq> 0)"
| "py_truthy (JStr s) = (s \<noteq> [])"
| "py_truthy (JList xs) = (xs \<noteq> [])"
| "py_truthy (JObj kvs) = (kvs \<noteq> [])"

text \<open>\<^verbatim>\<open>d.get(k, default)\<close> on a dict.\<close>

definition dict_get :: "(string \<times> json) list \<Rightarrow> string \<Rightarrow> json \<Rightarrow> json" where
  "dict_get d k dflt = (case map_of d k of Some v \<Rightarrow> v | None \<Rightarrow> dflt)"

text \<open>\<^verbatim>\<open>d[k]\<close> on a dict: a missing key raises \<^verbatim>\<open>KeyError\<close>.\<close>

definition dict_item :: "(string \<times> json) list \<Rightarrow> string \<Rightarrow> error + json" where
  "dict_item d k = (case map_of d k of Some v \<Rightarrow> Inr v | None \<Rightarrow> Inl (KeyError k))"

text \<open>
  \<^verbatim>\<open>x.get(k, default)\<close> on any value: only a dict has the method, every other
  value raises \<^verbatim>\<open>AttributeError\<close>.
\<close>

fun py_get :: "json \<Rightarrow> string \<Rightarrow> json \<Rightarrow> error + json" where
  "py_get (JObj d) k dflt = Inr (dict_get d k dflt)"
| "py_get _ k dflt = Inl AttributeError"

text \<open>
  \<^verbatim>\<open>x[k]\<close> with a string key on any value: a dict looks the key up; a string or a
  list wants an integer index and \<^verbatim>\<open>None\<close>, a bool and an int are not
  subscriptable, all of which is \<^verbatim>\<open>TypeError\<close>.
\<close>

fun py_item :: "json \<Rightarrow> string \<Rightarrow> error + json" where
  "py_item (JObj d) k = dict_item d k"
| "py_item _ k = Inl TypeError"

text \<open>
  \<^verbatim>\<open>for x in v\<close>: a list gives its elements, a dict its keys, a string its
  characters; nothing else is iterable.
\<close>

fun py_iter :: "json \<Rightarrow> error + json list" where
  "py_iter (JList xs) = Inr xs"
| "py_iter (JObj d) = Inr (map (\<lambda>kv. JStr (fst kv)) d)"
| "py_iter (JStr s) = Inr (map (\<lambda>c. JStr [c]) s)"
| "py_iter _ = Inl TypeError"

subsection \<open>String methods\<close>

text \<open>\<^verbatim>\<open>s.split(c)\<close> for a separator of one character; the result is never empty.\<close>

fun split :: "char \<Rightarrow> string \<Rightarrow> string list" where
  "split c [] = [[]]"
| "split c (x # xs) =
     (if x = c then [] # split c xs
      else (case split c xs of
              [] \<Rightarrow> [[x]]
            | p # ps \<Rightarrow> (x # p) # ps))"

text \<open>\<^verbatim>\<open>v.split("/")\<close> on any value: only a string has the method.\<close>

fun py_split :: "json \<Rightarrow> error + string list" where
  "py_split (JStr s) = Inr (split CHR ''/'' s)"
| "py_split _ = Inl AttributeError"

text \<open>\<^verbatim>\<open>s.replace(a, b)\<close> for \<open>a\<close> and \<open>b\<close> of one character each.\<close>

definition replace :: "char \<Rightarrow> char \<Rightarrow> string \<Rightarrow> string" where
  "replace a b s = map (\<lambda>c. if c = a then b else c) s"

text \<open>\<^verbatim>\<open>s.endswith(suffix)\<close>.\<close>

definition endswith :: "string \<Rightarrow> string \<Rightarrow> bool" where
  "endswith s suf = (length suf \<le> length s \<and> drop (length s - length suf) s = suf)"

subsection \<open>Formatting a value inside an f-string\<close>

text \<open>
  \<^verbatim>\<open>f"{x}"\<close> is \<^verbatim>\<open>str(x)\<close>: a string is itself, \<^verbatim>\<open>None\<close>, a bool and an int are
  printed, a list and a dict print the \<^verbatim>\<open>repr\<close> of their parts.
\<close>

fun dec :: "nat \<Rightarrow> string" where
  "dec n = (if n < 10 then [''0123456789'' ! n]
            else dec (n div 10) @ [''0123456789'' ! (n mod 10)])"

definition str_int :: "int \<Rightarrow> string" where
  "str_int i = (if i < 0 then CHR ''-'' # dec (nat (- i)) else dec (nat i))"

definition hex2 :: "nat \<Rightarrow> string" where
  "hex2 n = [''0123456789abcdef'' ! (n div 16), ''0123456789abcdef'' ! (n mod 16)]"

definition printable :: "char \<Rightarrow> bool" where
  "printable c = (let n = (of_char c :: nat)
                  in (32 \<le> n \<and> n < 127) \<or> (161 \<le> n \<and> n \<noteq> 173))"

definition repr_char :: "char \<Rightarrow> char \<Rightarrow> string" where
  "repr_char q c =
     (if c = q \<or> c = CHR 0x5C then [CHR 0x5C, c]
      else if c = CHR 0x09 then [CHR 0x5C, CHR ''t'']
      else if c = CHR 0x0A then [CHR 0x5C, CHR ''n'']
      else if c = CHR 0x0D then [CHR 0x5C, CHR ''r'']
      else if printable c then [c]
      else [CHR 0x5C, CHR ''x''] @ hex2 (of_char c))"

definition repr_str :: "string \<Rightarrow> string" where
  "repr_str s =
     (let q = (if CHR 0x27 \<in> set s \<and> CHR 0x22 \<notin> set s then CHR 0x22 else CHR 0x27)
      in q # concat (map (repr_char q) s) @ [q])"

fun join :: "string \<Rightarrow> string list \<Rightarrow> string" where
  "join sep [] = []"
| "join sep [x] = x"
| "join sep (x # y # ys) = x @ sep @ join sep (y # ys)"

fun py_repr :: "json \<Rightarrow> string"
  and py_repr_list :: "json list \<Rightarrow> string list"
  and py_repr_items :: "(string \<times> json) list \<Rightarrow> string list" where
  "py_repr JNull = ''None''"
| "py_repr (JBool b) = (if b then ''True'' else ''False'')"
| "py_repr (JInt i) = str_int i"
| "py_repr (JStr s) = repr_str s"
| "py_repr (JList xs) = ''['' @ join '', '' (py_repr_list xs) @ '']''"
| "py_repr (JObj d) = ''{'' @ join '', '' (py_repr_items d) @ ''}''"
| "py_repr_list [] = []"
| "py_repr_list (x # xs) = py_repr x # py_repr_list xs"
| "py_repr_items [] = []"
| "py_repr_items (kv # kvs) = (repr_str (fst kv) @ '': '' @ py_repr (snd kv)) # py_repr_items kvs"

fun py_str :: "json \<Rightarrow> string" where
  "py_str (JStr s) = s"
| "py_str v = py_repr v"

section \<open>Persistent records\<close>

text \<open>
  The dataclasses of \<^verbatim>\<open>models.py\<close>. The columns \<^verbatim>\<open>id\<close> of a submission and
  \<^verbatim>\<open>created_at\<close> of both tables are filled in by the database and never read by
  the pipeline; they are left out.
\<close>

record leaderboard =
  lb_id :: int
  github_repo_id :: int
  repo_full_name :: string
  installation_id :: int

record submission =
  workflow_run_id :: json
  leaderboard_repo :: string
  purple_repo :: string
  purple_owner :: string
  status :: string
  pr_number :: "int option"
  pr_url :: json
  results_json :: "string option"
  error_message :: "string option"

section \<open>The world outside the handler\<close>

text \<open>
  Every call of the GitHub client (\<^verbatim>\<open>github_client\<close>, an external collaborator) is
  recorded, so that a theorem can say which calls a run of the pipeline made.
\<close>

datatype github_call =
    GetArtifacts json json json
  | DownloadArtifact json json json
  | CreateBranch int string string string
  | CommitFiles int string string "(string \<times> string) list" string
  | CreatePullRequest int string string string string string

record world =
  leaderboards :: "leaderboard list"
  submissions :: "submission list"
  github_calls :: "github_call list"

text \<open>
  What the handler is run against. The replies of the GitHub client are arbitrary: each
  may raise, and each may depend on the calls made before it. The archive reader
  (\<^verbatim>\<open>zipfile\<close>), the JSON codec and the text decoder of the Python library are parameters
  as well: \<open>zip_namelist\<close> opens the archive and lists its entries, \<open>zip_read\<close> reads one
  entry by name.
\<close>

text \<open>
  Modelled from the spec: the declaration of the table \<^verbatim>\<open>submissions\<close> (the SQL
  migrations) is not among the sources. The spec says that the source does not itself
  enforce one row per run id and asks a reimplementation to add a uniqueness constraint;
  the field \<open>unique_run_id\<close> says whether the table has that constraint, in which case a
  second insert for a run id raises. Every theorem below holds for both values unless it
  says otherwise.
\<close>

record env =
  on_get_artifacts :: "github_call list \<Rightarrow> json \<Rightarrow> json \<Rightarrow> json \<Rightarrow> error + json"
  on_download_artifact :: "github_call list \<Rightarrow> json \<Rightarrow> json \<Rightarrow> json \<Rightarrow> error + bytes option"
  on_create_branch :: "github_call list \<Rightarrow> int \<Rightarrow> string \<Rightarrow> string \<Rightarrow> string \<Rightarrow> error + unit"
  on_commit_files ::
    "github_call list \<Rightarrow> int \<Rightarrow> string \<Rightarrow> string \<Rightarrow> (string \<times> string) list \<Rightarrow> string \<Rightarrow> error + unit"
  on_create_pull_request ::
    "github_call list \<Rightarrow> int \<Rightarrow> string \<Rightarrow> string \<Rightarrow> string \<Rightarrow> string \<Rightarrow> string \<Rightarrow> error + json"
  zip_namelist :: "bytes \<Rightarrow> error + string list"
  zip_read :: "bytes \<Rightarrow> string \<Rightarrow> error + bytes"
  json_loads :: "bytes \<Rightarrow> error + json"
  decode_utf8 :: "bytes \<Rightarrow> error + string"
  json_dumps :: "json \<Rightarrow> string"
  json_dumps_indent2 :: "json \<Rightarrow> string"
  unique_run_id :: bool

subsection \<open>Computations that raise and change the world\<close>

text \<open>
  A coroutine of the source is a function from the world to an outcome (an exception or
  a value) and the world it leaves behind. What a coroutine did before it raised stays
  done.
\<close>

type_synonym 'a prog = "world \<Rightarrow> (error + 'a) \<times> world"

definition return :: "'a \<Rightarrow> 'a prog" where
  "return x w = (Inr x, w)"

definition lift :: "error + 'a \<Rightarrow> 'a prog" where
  "lift r w = (r, w)"

definition bind :: "'a prog \<Rightarrow> ('a \<Rightarrow> 'b prog) \<Rightarrow> 'b prog" where
  "bind m f w = (case m w of (Inl e, w') \<Rightarrow> (Inl e, w') | (Inr x, w') \<Rightarrow> f x w')"

text \<open>The same sequencing for code that only raises.\<close>

definition ebind :: "error + 'a \<Rightarrow> ('a \<Rightarrow> error + 'b) \<Rightarrow> error + 'b" where
  "ebind r f = (case r of Inl e \<Rightarrow> Inl e | Inr x \<Rightarrow> f x)"

subsection \<open>The GitHub client\<close>

definition get_artifacts :: "env \<Rightarrow> json \<Rightarrow> json \<Rightarrow> json \<Rightarrow> json prog" where
  "get_artifacts env inst repo run_id w =
     (on_get_artifacts env (github_calls w) inst repo run_id,
      w\<lparr>github_calls := github_calls w @ [GetArtifacts inst repo run_id]\<rparr>)"

definition download_artifact :: "env \<Rightarrow> json \<Rightarrow> json \<Rightarrow> json \<Rightarrow> bytes option prog" where
  "download_artifact env inst repo artifact_id w =
     (on_download_artifact env (github_calls w) inst repo artifact_id,
      w\<lparr>github_calls := github_calls w @ [DownloadArtifact inst repo artifact_id]\<rparr>)"

definition create_branch :: "env \<Rightarrow> int \<Rightarrow> string \<Rightarrow> string \<Rightarrow> string \<Rightarrow> unit prog" where
  "create_branch env inst repo branch base w =
     (on_create_branch env (github_calls w) inst repo branch base,
      w\<lparr>github_calls := github_calls w @ [CreateBranch inst repo branch base]\<rparr>)"

definition commit_files ::
  "env \<Rightarrow> int \<Rightarrow> string \<Rightarrow> string \<Rightarrow> (string \<times> string) list \<Rightarrow> string \<Rightarrow> unit prog" where
  "commit_files env inst repo branch files message w =
     (on_commit_files env (github_calls w) inst repo branch files message,
      w\<lparr>github_calls := github_calls w @ [CommitFiles inst repo branch files message]\<rparr>)"

definition create_pull_request ::
  "env \<Rightarrow> int \<Rightarrow> string \<Rightarrow> string \<Rightarrow> string \<Rightarrow> string \<Rightarrow> string \<Rightarrow> json prog" where
  "create_pull_request env inst repo branch base title body w =
     (on_create_pull_request env (github_calls w) inst repo branch base title body,
      w\<lparr>github_calls := github_calls w @ [CreatePullRequest inst repo branch base title body]\<rparr>)"

section \<open>Queries of \<^verbatim>\<open>db.py\<close>\<close>

text \<open>
  A table is the list of its rows in insertion order; \<^verbatim>\<open>fetchrow\<close> gives the first
  row that the \<^verbatim>\<open>WHERE\<close> clause selects, or \<^verbatim>\<open>None\<close>. The connection pool is taken to
  be initialised and the database to answer: a query raises only through the constraint
  above.
\<close>

definition get_leaderboard_by_repo_name :: "string \<Rightarrow> leaderboard option prog" where
  "get_leaderboard_by_repo_name name w =
     (Inr (find (\<lambda>l. repo_full_name l = name) (leaderboards w)), w)"

definition get_submission_by_run_id :: "json \<Rightarrow> submission option prog" where
  "get_submission_by_run_id run_id w =
     (Inr (find (\<lambda>s. workflow_run_id s = run_id) (submissions w)), w)"

text \<open>
  \<^verbatim>\<open>create_submission\<close> inserts one row. The results are stored as
  \<^verbatim>\<open>json.dumps(results_json) if results_json else None\<close>.
\<close>

definition create_submission ::
  "env \<Rightarrow> json \<Rightarrow> string \<Rightarrow> string \<Rightarrow> string \<Rightarrow> string \<Rightarrow> string option \<Rightarrow> json \<Rightarrow>
   int option \<Rightarrow> json \<Rightarrow> submission prog" where
  "create_submission env run_id lb_repo p_repo p_owner st err url num results w =
     (if unique_run_id env \<and> find (\<lambda>s. workflow_run_id s = run_id) (submissions w) \<noteq> None
      then (Inl UniqueViolationError, w)
      else
        let row = \<lparr>workflow_run_id = run_id, leaderboard_repo = lb_repo, purple_repo = p_repo,
                   purple_owner = p_owner, status = st, pr_number = num, pr_url = url,
                   results_json = (if py_truthy results then Some (json_dumps env results) else None),
                   error_message = err\<rparr>
        in (Inr row, w\<lparr>submissions := submissions w @ [row]\<rparr>))"

section \<open>The handler of \<^verbatim>\<open>workflow_run\<close> events\<close>

datatype Status = OK | IGNORED | ERROR | REJECTED

text \<open>\<^verbatim>\<open>Status\<close> is a \<^verbatim>\<open>StrEnum\<close>: a member is the string it is declared with.\<close>

fun status_value :: "Status \<Rightarrow> string" where
  "status_value OK = ''ok''"
| "status_value IGNORED = ''ignored''"
| "status_value ERROR = ''error''"
| "status_value REJECTED = ''rejected''"

subsection \<open>\<^verbatim>\<open>find_leaderboard\<close>\<close>

text \<open>The loop over the references, in their order.\<close>

fun find_leaderboard_loop :: "json list \<Rightarrow> leaderboard option prog" where
  "find_leaderboard_loop [] = return None"
| "find_leaderboard_loop (ref # refs) =
     bind (lift (py_item ref ''path'')) (\<lambda>path.
     bind (lift (py_split path)) (\<lambda>parts.
       if length parts < 2 then find_leaderboard_loop refs
       else
         bind (get_leaderboard_by_repo_name (parts ! 0 @ ''/'' @ parts ! 1)) (\<lambda>found.
           case found of
             Some l \<Rightarrow> return (Some l)
           | None \<Rightarrow> find_leaderboard_loop refs)))"

definition find_leaderboard :: "json \<Rightarrow> leaderboard option prog" where
  "find_leaderboard referenced_workflows =
     bind (lift (py_iter referenced_workflows)) find_leaderboard_loop"

subsection \<open>\<^verbatim>\<open>download_submission_artifact\<close>\<close>

fun download_submission_artifact_loop ::
  "env \<Rightarrow> json \<Rightarrow> json \<Rightarrow> json list \<Rightarrow> bytes option prog" where
  "download_submission_artifact_loop env inst repo [] = return None"
| "download_submission_artifact_loop env inst repo (artifact # artifacts) =
     bind (lift (py_item artifact ''name'')) (\<lambda>name.
       if name = JStr ''agentbeats-submission'' then
         bind (lift (py_item artifact ''id'')) (\<lambda>artifact_id.
           download_artifact env inst repo artifact_id)
       else download_submission_artifact_loop env inst repo artifacts)"

definition download_submission_artifact ::
  "env \<Rightarrow> json \<Rightarrow> json \<Rightarrow> json \<Rightarrow> bytes option prog" where
  "download_submission_artifact env inst repo run_id =
     bind (get_artifacts env inst repo run_id) (\<lambda>artifacts.
     bind (lift (py_get artifacts ''artifacts'' (JList []))) (\<lambda>listed.
     bind (lift (py_iter listed)) (\<lambda>entries.
       download_submission_artifact_loop env inst repo entries)))"

subsection \<open>\<^verbatim>\<open>parse_artifact\<close>\<close>

text \<open>
  The loop over \<^verbatim>\<open>zf.namelist()\<close>; the three variables of the source are the
  accumulator.
\<close>

fun parse_artifact_loop ::
  "env \<Rightarrow> bytes \<Rightarrow> string list \<Rightarrow> json \<times> json \<times> string \<Rightarrow> error + json \<times> json \<times> string" where
  "parse_artifact_loop env z [] acc = Inr acc"
| "parse_artifact_loop env z (name # names) (results, manifest, scenario) =
     (if endswith name ''results.json'' then
        ebind (zip_read env z name) (\<lambda>data.
        ebind (json_loads env data) (\<lambda>v.
          parse_artifact_loop env z names (v, manifest, scenario)))
      else if endswith name ''manifest.json'' then
        ebind (zip_read env z name) (\<lambda>data.
        ebind (json_loads env data) (\<lambda>v.
          parse_artifact_loop env z names (results, v, scenario)))
      else if endswith name ''scenario.toml'' then
        ebind (zip_read env z name) (\<lambda>data.
        ebind (decode_utf8 env data) (\<lambda>t.
          parse_artifact_loop env z names (results, manifest, t)))
      else parse_artifact_loop env z names (results, manifest, scenario))"

definition parse_artifact :: "env \<Rightarrow> bytes \<Rightarrow> error + json \<times> json \<times> string" where
  "parse_artifact env artifact_zip =
     ebind (zip_namelist env artifact_zip) (\<lambda>names.
       parse_artifact_loop env artifact_zip names (JObj [], JObj [], []))"

subsection \<open>\<^verbatim>\<open>format_pr_body\<close> and \<^verbatim>\<open>create_submission_pr\<close>\<close>

definition format_pr_body :: "env \<Rightarrow> json \<Rightarrow> json \<Rightarrow> error + string" where
  "format_pr_body env manifest results =
     ebind (py_item manifest ''purple_agent_owner'') (\<lambda>owner.
     ebind (py_item manifest ''purple_agent_repo'') (\<lambda>repo.
     ebind (py_item manifest ''run_id'') (\<lambda>run_id.
     ebind (py_item manifest ''run_url'') (\<lambda>run_url.
       Inr (''## AgentBeats Submission\<newline>\<newline>''
          @ ''| Field | Value |\<newline>''
          @ ''|-------|-------|\<newline>''
          @ ''| **Competitor** | @'' @ py_str owner @ '' |\<newline>''
          @ ''| **Repository** | ['' @ py_str repo @ ''](https://github.com/'' @ py_str repo @ '') |\<newline>''
          @ ''| **Workflow Run** | [#'' @ py_str run_id @ ''](''  @ py_str run_url @ '') |\<newline>\<newline>''
          @ ''### Results\<newline>''
          @ ''```json\<newline>''
          @ json_dumps_indent2 env results @ ''\<newline>''
          @ ''```\<newline>\<newline>''
          @ ''---\<newline>''
          @ ''*Auto-generated by [AgentBeats](https://agentbeats.dev)*\<newline>'')))))"

text \<open>\<^verbatim>\<open>v.replace(":", "-").replace("T", "-")[:15]\<close> on any value.\<close>

fun normalize_timestamp :: "json \<Rightarrow> error + string" where
  "normalize_timestamp (JStr s) =
     Inr (take 15 (replace CHR ''T'' CHR ''-'' (replace CHR '':'' CHR ''-'' s)))"
| "normalize_timestamp _ = Inl AttributeError"

definition branch_name :: "json \<Rightarrow> string" where
  "branch_name run_id = ''agentbeats/submission-'' @ py_str run_id"

definition submission_path :: "json \<Rightarrow> string \<Rightarrow> string" where
  "submission_path owner timestamp = ''submissions/'' @ py_str owner @ ''/'' @ timestamp"

definition create_submission_pr ::
  "env \<Rightarrow> leaderboard \<Rightarrow> json \<Rightarrow> json \<Rightarrow> string \<Rightarrow> json \<Rightarrow> json prog" where
  "create_submission_pr env lb manifest results scenario run_id =
     bind (lift (py_item manifest ''purple_agent_owner'')) (\<lambda>owner.
     bind (lift (py_item manifest ''timestamp'')) (\<lambda>ts.
     bind (lift (normalize_timestamp ts)) (\<lambda>timestamp.
     bind (create_branch env (installation_id lb) (repo_full_name lb) (branch_name run_id) ''main'') (\<lambda>_.
     bind (commit_files env (installation_id lb) (repo_full_name lb) (branch_name run_id)
             [(submission_path owner timestamp @ ''/results.json'', json_dumps_indent2 env results),
              (submission_path owner timestamp @ ''/manifest.json'', json_dumps_indent2 env manifest),
              (submission_path owner timestamp @ ''/scenario.toml'', scenario)]
             (''[AgentBeats] Submission from '' @ py_str owner)) (\<lambda>_.
     bind (lift (format_pr_body env manifest results)) (\<lambda>body.
     bind (create_pull_request env (installation_id lb) (repo_full_name lb) (branch_name run_id) ''main''
             (''[Submission] '' @ py_str owner) body) (\<lambda>pr.
       lift (py_item pr ''html_url''))))))))"

subsection \<open>\<^verbatim>\<open>record_submission\<close>\<close>

text \<open>
  \<^verbatim>\<open>purple_repo.split("/")[0]\<close> is evaluated before the insert; the first part of a
  split always exists.
\<close>

definition record_submission ::
  "env \<Rightarrow> json \<Rightarrow> string \<Rightarrow> json \<Rightarrow> string \<Rightarrow> string option \<Rightarrow> json \<Rightarrow> json \<Rightarrow> unit prog" where
  "record_submission env run_id lb_repo p_repo st err url results =
     bind (lift (py_split p_repo)) (\<lambda>parts.
     bind (create_submission env run_id lb_repo (py_str p_repo) (hd parts) st err url None results) (\<lambda>_.
       return ()))"

subsection \<open>\<^verbatim>\<open>handle_workflow_run\<close>\<close>

definition reply :: "Status \<Rightarrow> string \<Rightarrow> json" where
  "reply st reason = JObj [(''status'', JStr (status_value st)), (''reason'', JStr reason)]"

definition handle_workflow_run :: "env \<Rightarrow> (string \<times> json) list \<Rightarrow> json prog" where
  "handle_workflow_run env payload =
     (if dict_get payload ''action'' JNull \<noteq> JStr ''completed'' then
        return (reply IGNORED ''not completed'')
      else
      bind (lift (dict_item payload ''workflow_run'')) (\<lambda>run.
      bind (lift (py_get run ''conclusion'' JNull)) (\<lambda>conclusion.
        if conclusion \<noteq> JStr ''success'' then
          return (reply IGNORED (''conclusion='' @ py_str conclusion))
        else
        bind (lift (py_item run ''id'')) (\<lambda>run_id.
        bind (lift (dict_item payload ''repository'')) (\<lambda>repository.
        bind (lift (py_item repository ''full_name'')) (\<lambda>p_repo.
        bind (lift (py_get run ''referenced_workflows'' (JList []))) (\<lambda>referenced.
          if \<not> py_truthy referenced then
            return (reply IGNORED ''no reusable workflows'')
          else
          bind (find_leaderboard referenced) (\<lambda>found.
            case found of
              None \<Rightarrow> return (reply IGNORED ''no registered leaderboard'')
            | Some lb \<Rightarrow>
          bind (get_submission_by_run_id run_id) (\<lambda>existing.
            case existing of
              Some _ \<Rightarrow> return (reply IGNORED ''duplicate'')
            | None \<Rightarrow>
          bind (lift (dict_item payload ''installation'')) (\<lambda>installation.
          bind (lift (py_item installation ''id'')) (\<lambda>purple_installation_id.
          bind (download_submission_artifact env purple_installation_id p_repo run_id) (\<lambda>artifact_data.
            if artifact_data = None \<or> artifact_data = Some [] then
              bind (record_submission env run_id (repo_full_name lb) p_repo ''failed''
                      (Some ''No artifact found'') JNull JNull) (\<lambda>_.
                return (reply ERROR ''no artifact''))
            else
            bind (lift (parse_artifact env (the artifact_data))) (\<lambda>(results, manifest, scenario).
            bind (lift (py_get manifest ''target_leaderboard'' JNull)) (\<lambda>target.
              if target \<noteq> JStr (repo_full_name lb) then
                bind (record_submission env run_id (repo_full_name lb) p_repo ''rejected''
                        (Some ''Target mismatch'') JNull JNull) (\<lambda>_.
                  return (reply REJECTED ''target mismatch''))
              else
              bind (create_submission_pr env lb manifest results scenario run_id) (\<lambda>url.
              bind (record_submission env run_id (repo_full_name lb) p_repo ''submitted''
                      None url results) (\<lambda>_.
                return (JObj [(''status'', JStr (status_value OK)), (''pr_url'', url)])))))))))))))))))"

section \<open>Notions used to state the properties\<close>

subsection \<open>The handler in two parts\<close>

text \<open>
  The handler up to and including the check for an earlier submission (lines 27 to 48):
  it either returns early, with the reply, or goes on with the leaderboard, the run id
  and the submitting repository.
\<close>

definition check_phase :: "(string \<times> json) list \<Rightarrow> (json + leaderboard \<times> json \<times> json) prog" where
  "check_phase payload =
     (if dict_get payload ''action'' JNull \<noteq> JStr ''completed'' then
        return (Inl (reply IGNORED ''not completed''))
      else
      bind (lift (dict_item payload ''workflow_run'')) (\<lambda>run.
      bind (lift (py_get run ''conclusion'' JNull)) (\<lambda>conclusion.
        if conclusion \<noteq> JStr ''success'' then
          return (Inl (reply IGNORED (''conclusion='' @ py_str conclusion)))
        else
        bind (lift (py_item run ''id'')) (\<lambda>run_id.
        bind (lift (dict_item payload ''repository'')) (\<lambda>repository.
        bind (lift (py_item repository ''full_name'')) (\<lambda>p_repo.
        bind (lift (py_get run ''referenced_workflows'' (JList []))) (\<lambda>referenced.
          if \<not> py_truthy referenced then
            return (Inl (reply IGNORED ''no reusable workflows''))
          else
          bind (find_leaderboard referenced) (\<lambda>found.
            case found of
              None \<Rightarrow> return (Inl (reply IGNORED ''no registered leaderboard''))
            | Some lb \<Rightarrow>
          bind (get_submission_by_run_id run_id) (\<lambda>existing.
            case existing of
              Some _ \<Rightarrow> return (Inl (reply IGNORED ''duplicate''))
            | None \<Rightarrow> return (Inr (lb, run_id, p_repo)))))))))))"

text \<open>The rest of the handler (lines 50 to 80).\<close>

definition submit_phase ::
  "env \<Rightarrow> (string \<times> json) list \<Rightarrow> leaderboard \<Rightarrow> json \<Rightarrow> json \<Rightarrow> json prog" where
  "submit_phase env payload lb run_id p_repo =
     bind (lift (dict_item payload ''installation'')) (\<lambda>installation.
     bind (lift (py_item installation ''id'')) (\<lambda>purple_installation_id.
     bind (download_submission_artifact env purple_installation_id p_repo run_id) (\<lambda>artifact_data.
       if artifact_data = None \<or> artifact_data = Some [] then
         bind (record_submission env run_id (repo_full_name lb) p_repo ''failed''
                 (Some ''No artifact found'') JNull JNull) (\<lambda>_.
           return (reply ERROR ''no artifact''))
       else
       bind (lift (parse_artifact env (the artifact_data))) (\<lambda>(results, manifest, scenario).
       bind (lift (py_get manifest ''target_leaderboard'' JNull)) (\<lambda>target.
         if target \<noteq> JStr (repo_full_name lb) then
           bind (record_submission env run_id (repo_full_name lb) p_repo ''rejected''
                   (Some ''Target mismatch'') JNull JNull) (\<lambda>_.
             return (reply REJECTED ''target mismatch''))
         else
         bind (create_submission_pr env lb manifest results scenario run_id) (\<lambda>url.
         bind (record_submission env run_id (repo_full_name lb) p_repo ''submitted''
                 None url results) (\<lambda>_.
           return (JObj [(''status'', JStr (status_value OK)), (''pr_url'', url)]))))))))"

definition resume ::
  "env \<Rightarrow> (string \<times> json) list \<Rightarrow> json + leaderboard \<times> json \<times> json \<Rightarrow> json prog" where
  "resume env payload r =
     (case r of
        Inl res \<Rightarrow> return res
      | Inr (lb, run_id, p_repo) \<Rightarrow> submit_phase env payload lb run_id p_repo)"

subsection \<open>What an event carries\<close>

definition completed_run :: "(string \<times> json) list \<Rightarrow> (string \<times> json) list \<Rightarrow> bool" where
  "completed_run payload run =
     (dict_get payload ''action'' JNull = JStr ''completed'' \<and>
      dict_item payload ''workflow_run'' = Inr (JObj run))"

definition successful_run ::
  "(string \<times> json) list \<Rightarrow> (string \<times> json) list \<Rightarrow> json \<Rightarrow> json \<Rightarrow> bool" where
  "successful_run payload run run_id p_repo =
     (completed_run payload run \<and>
      dict_get run ''conclusion'' JNull = JStr ''success'' \<and>
      dict_item run ''id'' = Inr run_id \<and>
      ebind (dict_item payload ''repository'') (\<lambda>r. py_item r ''full_name'') = Inr p_repo)"

definition referenced :: "(string \<times> json) list \<Rightarrow> json" where
  "referenced run = dict_get run ''referenced_workflows'' (JList [])"

text \<open>
  The event passes the four guards: it is a completed, successful run with its id and
  its repository, and its references resolve to the leaderboard \<open>lb\<close>.
\<close>

definition accepted ::
  "(string \<times> json) list \<Rightarrow> (string \<times> json) list \<Rightarrow> world \<Rightarrow> json \<Rightarrow> json \<Rightarrow> leaderboard \<Rightarrow> bool" where
  "accepted payload run w run_id p_repo lb =
     (successful_run payload run run_id p_repo \<and>
      py_truthy (referenced run) \<and>
      find_leaderboard (referenced run) w = (Inr (Some lb), w))"

definition installed :: "(string \<times> json) list \<Rightarrow> json \<Rightarrow> bool" where
  "installed payload inst_id =
     (ebind (dict_item payload ''installation'') (\<lambda>i. py_item i ''id'') = Inr inst_id)"

text \<open>No submission is recorded for the run id.\<close>

definition unseen :: "world \<Rightarrow> json \<Rightarrow> bool" where
  "unseen w run_id = (find (\<lambda>s. workflow_run_id s = run_id) (submissions w) = None)"

subsection \<open>References and the registry\<close>

definition ref_path :: "json \<Rightarrow> string option" where
  "ref_path ref = (case py_item ref ''path'' of Inr (JStr p) \<Rightarrow> Some p | _ \<Rightarrow> None)"

text \<open>The first two segments of a path as \<open>owner/repo\<close>, when it has two.\<close>

definition path_repo :: "string \<Rightarrow> string option" where
  "path_repo p = (case split CHR ''/'' p of a # b # _ \<Rightarrow> Some (a @ ''/'' @ b) | _ \<Rightarrow> None)"

definition registered :: "world \<Rightarrow> string \<Rightarrow> leaderboard option" where
  "registered w name = find (\<lambda>l. repo_full_name l = name) (leaderboards w)"

text \<open>
  A reference misses when it has a path that is too short or names a repository that is
  not registered; it hits \<open>l\<close> when its repository is registered as \<open>l\<close>.
\<close>

definition miss :: "world \<Rightarrow> json \<Rightarrow> bool" where
  "miss w ref =
     (case ref_path ref of
        None \<Rightarrow> False
      | Some p \<Rightarrow> (case path_repo p of None \<Rightarrow> True | Some n \<Rightarrow> registered w n = None))"

definition hit :: "world \<Rightarrow> json \<Rightarrow> leaderboard \<Rightarrow> bool" where
  "hit w ref l =
     (case ref_path ref of
        None \<Rightarrow> False
      | Some p \<Rightarrow> (case path_repo p of None \<Rightarrow> False | Some n \<Rightarrow> registered w n = Some l))"

subsection \<open>What a computation leaves alone\<close>

definition db :: "world \<Rightarrow> leaderboard list \<times> submission list" where
  "db w = (leaderboards w, submissions w)"

definition keeps :: "(world \<Rightarrow> 'x) \<Rightarrow> 'a prog \<Rightarrow> bool" where
  "keeps g m = (\<forall>w. g (snd (m w)) = g w)"

text \<open>Whenever the computation returns, a submission for the run id is on record.\<close>

definition writes_row :: "json \<Rightarrow> 'a prog \<Rightarrow> bool" where
  "writes_row rid m =
     (\<forall>w r w'. m w = (Inr r, w') \<longrightarrow> leaderboards w' = leaderboards w \<and> \<not> unseen w' rid)"

subsection \<open>The artifact\<close>

text \<open>The entries that the loop of \<^verbatim>\<open>download_submission_artifact\<close> goes through.\<close>

definition listed_artifacts :: "json \<Rightarrow> error + json list" where
  "listed_artifacts artifacts = ebind (py_get artifacts ''artifacts'' (JList [])) py_iter"

text \<open>
  The listing of the run's artifacts, asked for in the world \<open>w\<close>, has an entry named
  exactly "agentbeats-submission", every entry before it has another name, and the
  download of that entry replies with \<open>data\<close>.
\<close>

definition offers :: "env \<Rightarrow> world \<Rightarrow> json \<Rightarrow> json \<Rightarrow> json \<Rightarrow> json \<Rightarrow> bytes option \<Rightarrow> bool" where
  "offers env w inst repo run_id artifact_id data =
     (\<exists>artifacts before a after.
        on_get_artifacts env (github_calls w) inst repo run_id = Inr artifacts \<and>
        listed_artifacts artifacts = Inr (before @ a # after) \<and>
        (\<forall>x\<in>set before. \<exists>n. py_item x ''name'' = Inr n \<and> n \<noteq> JStr ''agentbeats-submission'') \<and>
        py_item a ''name'' = Inr (JStr ''agentbeats-submission'') \<and>
        py_item a ''id'' = Inr artifact_id \<and>
        on_download_artifact env (github_calls w @ [GetArtifacts inst repo run_id]) inst repo artifact_id
          = Inr data)"

text \<open>
  \<^verbatim>\<open>json.loads(zf.read(name))\<close> and \<^verbatim>\<open>zf.read(name).decode("utf-8")\<close>, and the
  last name of a listing that ends with a suffix.
\<close>

definition read_json :: "env \<Rightarrow> bytes \<Rightarrow> string \<Rightarrow> error + json" where
  "read_json env z name = ebind (zip_read env z name) (json_loads env)"

definition read_text :: "env \<Rightarrow> bytes \<Rightarrow> string \<Rightarrow> error + string" where
  "read_text env z name = ebind (zip_read env z name) (decode_utf8 env)"

definition last_match :: "string \<Rightarrow> string list \<Rightarrow> string option" where
  "last_match suf names =
     (case rev (filter (\<lambda>n. endswith n suf) names) of [] \<Rightarrow> None | n # _ \<Rightarrow> Some n)"

subsection \<open>Two deliveries at once\<close>

text \<open>
  Every \<^verbatim>\<open>await\<close> of the handler is a point where another delivery may run. \<open>race\<close>
  is one such schedule for two deliveries of the same event: both run up to and including
  their check for an earlier submission, then the first runs to its end, then the second.
\<close>

definition race ::
  "env \<Rightarrow> (string \<times> json) list \<Rightarrow> world \<Rightarrow> (error + json) \<times> (error + json) \<times> world" where
  "race env payload w =
     (case check_phase payload w of (c1, wa) \<Rightarrow>
      case check_phase payload wa of (c2, wb) \<Rightarrow>
      case bind (lift c1) (resume env payload) wb of (r1, wc) \<Rightarrow>
      case bind (lift c2) (resume env payload) wc of (r2, wd) \<Rightarrow> (r1, r2, wd))"

subsection \<open>Sample data\<close>

definition bar_board :: leaderboard where
  "bar_board = \<lparr>lb_id = 1, github_repo_id = 77, repo_full_name = ''B/bar'', installation_id = 5\<rparr>"

definition world0 :: world where
  "world0 = \<lparr>leaderboards = [bar_board], submissions = [], github_calls = []\<rparr>"

definition workflow_ref :: "string \<Rightarrow> json" where
  "workflow_ref p = JObj [(''path'', JStr p)]"

definition run0 :: "(string \<times> json) list" where
  "run0 = [(''id'', JInt 42), (''conclusion'', JStr ''success''),
           (''referenced_workflows'',
              JList [workflow_ref ''A/foo/.github/workflows/runner.yml'',
                     workflow_ref ''B/bar/.github/workflows/runner.yml''])]"

definition payload_of :: "string \<Rightarrow> (string \<times> json) list \<Rightarrow> (string \<times> json) list" where
  "payload_of action run =
     [(''action'', JStr action), (''workflow_run'', JObj run),
      (''repository'', JObj [(''full_name'', JStr ''alice/agent'')]),
      (''installation'', JObj [(''id'', JInt 7)])]"

definition payload0 :: "(string \<times> json) list" where
  "payload0 = payload_of ''completed'' run0"

definition failed_run :: "(string \<times> json) list" where
  "failed_run = [(''id'', JInt 42), (''conclusion'', JStr ''failure'')]"

definition bare_run :: "(string \<times> json) list" where
  "bare_run = [(''id'', JInt 42), (''conclusion'', JStr ''success'')]"

definition foreign_run :: "(string \<times> json) list" where
  "foreign_run = [(''id'', JInt 42), (''conclusion'', JStr ''success''),
           (''referenced_workflows'', JList [workflow_ref ''A/foo/.github/workflows/runner.yml''])]"

text \<open>
  A sample environment. Its archive reader lists the given names and knows three entries,
  whose contents are the octets 1, 2 and 3; its JSON decoder reads the first as the results
  and the second as a manifest that targets \<open>target\<close>; its text decoder reads the third.
  The serialiser is Python's printer here; no property depends on which function it is.
\<close>

definition results0 :: json where
  "results0 = JObj [(''score'', JInt 1)]"

definition manifest_for :: "string \<Rightarrow> json" where
  "manifest_for target =
     JObj [(''purple_agent_owner'', JStr ''alice''),
           (''purple_agent_repo'', JStr ''alice/agent''),
           (''run_id'', JInt 42),
           (''run_url'', JStr ''https://github.com/alice/agent/actions/runs/42''),
           (''timestamp'', JStr ''2024-01-02T03:04:05Z''),
           (''target_leaderboard'', JStr target)]"

definition env_for :: "string list \<Rightarrow> string \<Rightarrow> bool \<Rightarrow> env" where
  "env_for names target unique =
     \<lparr>on_get_artifacts = (\<lambda>calls inst repo run_id.
          Inr (JObj [(''artifacts'',
                 JList [JObj [(''name'', JStr ''logs''), (''id'', JInt 8)],
                        JObj [(''name'', JStr ''agentbeats-submission''), (''id'', JInt 9)]])])),
      on_download_artifact = (\<lambda>calls inst repo artifact_id. Inr (Some [0x50, 0x4B])),
      on_create_branch = (\<lambda>calls inst repo branch base. Inr ()),
      on_commit_files = (\<lambda>calls inst repo branch files message. Inr ()),
      on_create_pull_request = (\<lambda>calls inst repo branch base title body.
          Inr (JObj [(''html_url'', JStr ''https://github.com/B/bar/pull/1'')])),
      zip_namelist = (\<lambda>z. Inr names),
      zip_read = (\<lambda>z name.
          if name = ''run/results.json'' then Inr [1]
          else if name = ''run/manifest.json'' then Inr [2]
          else if name = ''run/scenario.toml'' then Inr [3]
          else Inl (KeyError name)),
      json_loads = (\<lambda>data.
          if data = [1] then Inr results0
          else if data = [2] then Inr (manifest_for target)
          else Inl (Raised ''JSONDecodeError'')),
      decode_utf8 = (\<lambda>data. if data = [3] then Inr ''a=1'' else Inl (Raised ''UnicodeDecodeError'')),
      json_dumps = py_repr,
      json_dumps_indent2 = py_repr,
      unique_run_id = unique\<rparr>"

definition env0 :: env where
  "env0 = env_for [''run/results.json'', ''run/manifest.json'', ''run/scenario.toml''] ''B/bar'' False"

definition env_no_results :: env where
  "env_no_results = env_for [''run/manifest.json'', ''run/scenario.toml''] ''B/bar'' False"

definition env_other :: env where
  "env_other = env_for [''run/results.json'', ''run/manifest.json'', ''run/scenario.toml''] ''other/repo'' False"

definition env_other_unique :: env where
  "env_other_unique = env_for [''run/results.json'', ''run/manifest.json'', ''run/scenario.toml''] ''other/repo'' True"

definition env_no_manifest :: env where
  "env_no_manifest = env_for [''run/results.json'', ''run/scenario.toml''] ''B/bar'' False"

definition similar_artifacts :: json where
  "similar_artifacts =
     JObj [(''artifacts'',
        JList [JObj [(''name'', JStr ''agentbeats-submission-logs''), (''id'', JInt 8)],
               JObj [(''name'', JStr ''my-agentbeats-submission''), (''id'', JInt 9)]])]"

definition env_similar :: env where
  "env_similar = env0\<lparr>on_get_artifacts := (\<lambda>calls inst repo run_id. Inr similar_artifacts)\<rparr>"

definition env_roundtrip :: env where
  "env_roundtrip = env0\<lparr>json_loads := (\<lambda>data.
      if data = [1] then Inr (JObj [(''score'', JInt 1)])
      else if data = [2] then Inr (JObj [(''x'', JInt 1)])
      else Inl (Raised ''JSONDecodeError''))\<rparr>"

definition env_empty :: env where
  "env_empty = env0\<lparr>zip_namelist := (\<lambda>z. Inr [''README.md''])\<rparr>"

definition rejected_row :: submission where
  "rejected_row =
     \<lparr>workflow_run_id = JInt 42, leaderboard_repo = ''B/bar'', purple_repo = ''alice/agent'',
      purple_owner = ''alice'', status = ''rejected'', pr_number = None,
      pr_url = JNull, results_json = None, error_message = Some ''Target mismatch''\<rparr>"

definition world_rejected :: world where
  "world_rejected =
     \<lparr>leaderboards = [bar_board], submissions = [rejected_row],
      github_calls =
         [GetArtifacts (JInt 7) (JStr ''alice/agent'') (JInt 42),
          DownloadArtifact (JInt 7) (JStr ''alice/agent'') (JInt 9)]\<rparr>"

definition world_twice :: world where
  "world_twice =
     \<lparr>leaderboards = [bar_board], submissions = [rejected_row, rejected_row],
      github_calls =
         [GetArtifacts (JInt 7) (JStr ''alice/agent'') (JInt 42),
          DownloadArtifact (JInt 7) (JStr ''alice/agent'') (JInt 9),
          GetArtifacts (JInt 7) (JStr ''alice/agent'') (JInt 42),
          DownloadArtifact (JInt 7) (JStr ''alice/agent'') (JInt 9)]\<rparr>"

definition world_refused :: world where
  "world_refused =
     \<lparr>leaderboards = [bar_board], submissions = [rejected_row],
      github_calls =
         [GetArtifacts (JInt 7) (JStr ''alice/agent'') (JInt 42),
          DownloadArtifact (JInt 7) (JStr ''alice/agent'') (JInt 9),
          GetArtifacts (JInt 7) (JStr ''alice/agent'') (JInt 42),
          DownloadArtifact (JInt 7) (JStr ''alice/agent'') (JInt 9)]\<rparr>"

section \<open>Sequencing\<close>

lemma bind_return [simp]: "bind (return x) f = f x"
  by (rule ext) (simp add: bind_def return_def)

lemma bind_lift_Inr [simp]: "bind (lift (Inr x)) f = f x"
  by (rule ext) (simp add: bind_def lift_def)

lemma bind_lift_Inl [simp]: "bind (lift (Inl e)) f w = (Inl e, w)"
  by (simp add: bind_def lift_def)

lemma bind_assoc: "bind (bind m f) g = bind m (\<lambda>x. bind (f x) g)"
  by (rule ext) (simp add: bind_def split: prod.splits sum.splits)

lemma bind_if: "bind (if c then a else b) f = (if c then bind a f else bind b f)"
  by simp

lemma bind_case_option:
  "bind (case x of None \<Rightarrow> a | Some y \<Rightarrow> b y) f =
   (case x of None \<Rightarrow> bind a f | Some y \<Rightarrow> bind (b y) f)"
  by (simp split: option.splits)

lemma bind_InrE:
  assumes "bind m f w = (Inr r, w')"
  obtains x w1 where "m w = (Inr x, w1)" and "f x w1 = (Inr r, w')"
  using assms by (auto simp: bind_def split: prod.splits sum.splits)

lemma lift_eq [simp]: "lift r w = (x, w') \<longleftrightarrow> r = x \<and> w' = w"
  by (auto simp: lift_def)

lemma return_eq [simp]: "return r w = (x, w') \<longleftrightarrow> x = Inr r \<and> w' = w"
  by (auto simp: return_def)

lemma ebind_Inr [simp]: "ebind (Inr x) f = f x"
  by (simp add: ebind_def)

lemma ebind_Inl [simp]: "ebind (Inl e) f = Inl e"
  by (simp add: ebind_def)

lemma ebind_eq_Inr: "ebind r f = Inr y \<Longrightarrow> \<exists>x. r = Inr x \<and> f x = Inr y"
  by (cases r) simp_all

section \<open>Splitting a path\<close>

lemma split_not_Nil [simp]: "split c s \<noteq> []"
  by (induction s) (auto split: list.splits)

lemma split_no_sep: "c \<notin> set s \<Longrightarrow> split c s = [s]"
  by (induction s) auto

lemma split_append_sep: "c \<notin> set a \<Longrightarrow> split c (a @ c # s) = a # split c s"
  by (induction a) auto

lemma split_parts_no_sep: "p \<in> set (split c s) \<Longrightarrow> c \<notin> set p"
  by (induction s arbitrary: p) (auto split: if_splits list.splits)

section \<open>Resolving the leaderboard\<close>

lemma ref_path_SomeD: "ref_path ref = Some p \<Longrightarrow> py_item ref ''path'' = Inr (JStr p)"
  by (auto simp: ref_path_def split: sum.splits json.splits)

lemma get_leaderboard_by_repo_name_registered:
  "get_leaderboard_by_repo_name n w = (Inr (registered w n), w)"
  by (simp add: get_leaderboard_by_repo_name_def registered_def)

text \<open>One turn of the loop on a reference that has a path.\<close>

lemma loop_step_path:
  assumes "py_item ref ''path'' = Inr (JStr p)"
  shows "find_leaderboard_loop (ref # refs) w =
     (case path_repo p of
        None \<Rightarrow> find_leaderboard_loop refs w
      | Some n \<Rightarrow> (case registered w n of
                    Some l \<Rightarrow> (Inr (Some l), w)
                  | None \<Rightarrow> find_leaderboard_loop refs w))"
proof (cases "split CHR ''/'' p")
  case Nil
  then show ?thesis by simp
next
  case (Cons a as)
  show ?thesis
  proof (cases as)
    case Nil
    with Cons assms show ?thesis by (simp add: path_repo_def)
  next
    case (Cons b bs)
    with \<open>split CHR ''/'' p = a # as\<close> assms show ?thesis
      by (simp add: path_repo_def bind_def get_leaderboard_by_repo_name_registered
            return_def split: option.splits)
  qed
qed

lemma loop_frame:
  "leaderboards w' = leaderboards w \<Longrightarrow>
   find_leaderboard_loop refs w' = (fst (find_leaderboard_loop refs w), w')"
proof (induction refs)
  case Nil
  then show ?case by (simp add: return_def)
next
  case (Cons ref refs)
  then show ?case
    by (simp add: bind_def lift_def return_def get_leaderboard_by_repo_name_def
          split: sum.splits option.splits)
qed

declare find_leaderboard_loop.simps(2) [simp del]

lemma loop_miss:
  "miss w ref \<Longrightarrow> find_leaderboard_loop (ref # refs) w = find_leaderboard_loop refs w"
  by (auto simp: miss_def loop_step_path dest!: ref_path_SomeD split: option.splits)

lemma loop_hit: "hit w ref l \<Longrightarrow> find_leaderboard_loop (ref # refs) w = (Inr (Some l), w)"
  by (auto simp: hit_def loop_step_path dest!: ref_path_SomeD split: option.splits)

lemma loop_all_miss:
  "\<forall>r\<in>set refs. miss w r \<Longrightarrow>
   find_leaderboard_loop (refs @ rest) w = find_leaderboard_loop rest w"
  by (induction refs) (simp_all add: loop_miss)

lemma find_leaderboard_frame:
  assumes "leaderboards w' = leaderboards w"
  shows "find_leaderboard refs w' = (fst (find_leaderboard refs w), w')"
  using loop_frame [OF assms]
  by (simp add: find_leaderboard_def bind_def lift_def split: sum.splits)

lemma find_leaderboard_eq:
  "find_leaderboard refs w = (r, w') \<longleftrightarrow> fst (find_leaderboard refs w) = r \<and> w' = w"
  using find_leaderboard_frame [of w w refs] by (cases "find_leaderboard refs w") auto

lemma sample_miss: "miss world0 (workflow_ref ''A/foo/.github/workflows/runner.yml'')"
  by (simp add: miss_def ref_path_def dict_item_def path_repo_def registered_def world0_def
        workflow_ref_def bar_board_def)

lemma sample_short: "miss world0 (workflow_ref ''runner.yml'')"
  by (simp add: miss_def ref_path_def dict_item_def path_repo_def workflow_ref_def)

lemma sample_hit: "hit world0 (workflow_ref ''B/bar/.github/workflows/runner.yml'') bar_board"
  by (simp add: hit_def ref_path_def dict_item_def path_repo_def registered_def world0_def
        workflow_ref_def bar_board_def)

section \<open>What the parts of the handler leave alone\<close>

lemma keepsD: "keeps g m \<Longrightarrow> m w = (r, w') \<Longrightarrow> g w' = g w"
  by (auto simp: keeps_def dest: spec [where x = w])

lemma keeps_return [intro!]: "keeps g (return x)"
  by (simp add: keeps_def return_def)

lemma keeps_lift [intro!]: "keeps g (lift r)"
  by (simp add: keeps_def lift_def)

lemma keeps_bind [intro!]:
  assumes "keeps g m" and "\<And>x. keeps g (f x)"
  shows "keeps g (bind m f)"
  unfolding keeps_def
proof
  fix w
  obtain r w1 where m: "m w = (r, w1)" by (cases "m w")
  have g1: "g w1 = g w" using assms(1) m by (rule keepsD)
  show "g (snd (bind m f w)) = g w"
  proof (cases r)
    case (Inl e)
    with m g1 show ?thesis by (simp add: bind_def)
  next
    case (Inr x)
    obtain r2 w2 where f: "f x w1 = (r2, w2)" by (cases "f x w1")
    have "g w2 = g w1" using assms(2) f by (rule keepsD)
    with m g1 Inr f show ?thesis by (simp add: bind_def)
  qed
qed

lemma keeps_db_get_artifacts [intro!]: "keeps db (get_artifacts env i r n)"
  by (simp add: keeps_def get_artifacts_def db_def)

lemma keeps_db_download_artifact [intro!]: "keeps db (download_artifact env i r n)"
  by (simp add: keeps_def download_artifact_def db_def)

lemma keeps_db_create_branch [intro!]: "keeps db (create_branch env i r b m)"
  by (simp add: keeps_def create_branch_def db_def)

lemma keeps_db_commit_files [intro!]: "keeps db (commit_files env i r b f m)"
  by (simp add: keeps_def commit_files_def db_def)

lemma keeps_db_create_pull_request [intro!]: "keeps db (create_pull_request env i r b m t d)"
  by (simp add: keeps_def create_pull_request_def db_def)

lemma keeps_db_download_loop: "keeps db (download_submission_artifact_loop env i r entries)"
  by (induction entries) auto

lemma keeps_db_download: "keeps db (download_submission_artifact env i r n)"
  unfolding download_submission_artifact_def
  by (intro keeps_bind keeps_lift keeps_db_get_artifacts keeps_db_download_loop)

lemma keeps_db_create_submission_pr: "keeps db (create_submission_pr env lb m r s n)"
  unfolding create_submission_pr_def
  by (intro keeps_bind keeps_lift keeps_db_create_branch keeps_db_commit_files
        keeps_db_create_pull_request)

section \<open>The two parts of the handler\<close>

lemma handle_phases:
  "handle_workflow_run env payload = bind (check_phase payload) (resume env payload)"
  unfolding handle_workflow_run_def check_phase_def
  by (simp add: bind_assoc bind_if bind_case_option resume_def submit_phase_def
        cong: if_cong option.case_cong)

lemma get_submission_by_run_id_find:
  "get_submission_by_run_id rid w =
     (Inr (find (\<lambda>s. workflow_run_id s = rid) (submissions w)), w)"
  by (simp add: get_submission_by_run_id_def)

lemma check_phase_accepted:
  assumes "accepted payload run w rid pr lb"
  shows "check_phase payload w =
     (case find (\<lambda>s. workflow_run_id s = rid) (submissions w) of
        Some s \<Rightarrow> (Inr (Inl (reply IGNORED ''duplicate'')), w)
      | None \<Rightarrow> (Inr (Inr (lb, rid, pr)), w))"
proof -
  from assms obtain repository where
    a: "dict_get payload ''action'' JNull = JStr ''completed''"
      "dict_item payload ''workflow_run'' = Inr (JObj run)"
      "dict_get run ''conclusion'' JNull = JStr ''success''"
      "dict_item run ''id'' = Inr rid"
      "dict_item payload ''repository'' = Inr repository"
      "py_item repository ''full_name'' = Inr pr"
      "py_truthy (dict_get run ''referenced_workflows'' (JList []))"
      "find_leaderboard (dict_get run ''referenced_workflows'' (JList [])) w = (Inr (Some lb), w)"
    unfolding accepted_def successful_run_def completed_run_def referenced_def
    by (auto dest!: ebind_eq_Inr)
  show ?thesis
    unfolding check_phase_def
    by (simp add: a bind_def get_submission_by_run_id_find return_def lift_def
          split: option.splits)
qed

lemma check_phase_passed:
  assumes "check_phase payload w = (Inr (Inr (lb, rid, pr)), w')"
  shows "\<exists>run. accepted payload run w rid pr lb \<and> unseen w rid \<and> w' = w"
  using assms unfolding check_phase_def
  by (auto simp: accepted_def successful_run_def completed_run_def referenced_def unseen_def
        get_submission_by_run_id_def find_leaderboard_eq
      elim!: bind_InrE py_get.elims
      split: if_splits option.splits)

lemma check_phase_early:
  assumes "check_phase payload w = (Inr (Inl res), w')"
  shows "py_item res ''status'' = Inr (JStr ''ignored'')"
  using assms unfolding check_phase_def
  by (auto simp: reply_def dict_item_def elim!: bind_InrE split: if_splits option.splits)

lemma accepted_frame:
  assumes "accepted payload run w rid pr lb" and "leaderboards w' = leaderboards w"
  shows "accepted payload run w' rid pr lb"
  using assms(1) find_leaderboard_frame [OF assms(2), of "referenced run"]
  by (simp add: accepted_def)

lemma handle_accepted_unseen:
  assumes "accepted payload run w rid pr lb" and "unseen w rid"
  shows "handle_workflow_run env payload w = submit_phase env payload lb rid pr w"
  using assms(2) check_phase_accepted [OF assms(1)]
  by (simp add: handle_phases bind_def resume_def unseen_def)

lemma handle_duplicate:
  assumes "accepted payload run w rid pr lb" and "\<not> unseen w rid"
  shows "handle_workflow_run env payload w = (Inr (reply IGNORED ''duplicate''), w)"
  using assms(2) check_phase_accepted [OF assms(1)]
  by (auto simp: handle_phases bind_def resume_def unseen_def return_def)

section \<open>Recording a submission\<close>

lemma create_submission_unseen:
  "unseen w rid \<Longrightarrow>
   create_submission env rid lrepo prepo powner st err url num res w =
     (Inr \<lparr>workflow_run_id = rid, leaderboard_repo = lrepo, purple_repo = prepo,
            purple_owner = powner, status = st, pr_number = num, pr_url = url,
            results_json = (if py_truthy res then Some (json_dumps env res) else None),
            error_message = err\<rparr>,
      w\<lparr>submissions := submissions w @
        [\<lparr>workflow_run_id = rid, leaderboard_repo = lrepo, purple_repo = prepo,
            purple_owner = powner, status = st, pr_number = num, pr_url = url,
            results_json = (if py_truthy res then Some (json_dumps env res) else None),
            error_message = err\<rparr>]\<rparr>)"
  by (simp add: create_submission_def unseen_def Let_def)

lemma record_submission_unseen:
  "unseen w rid \<Longrightarrow>
   record_submission env rid lrepo (JStr p) st err url res w =
     (Inr (),
      w\<lparr>submissions := submissions w @
        [\<lparr>workflow_run_id = rid, leaderboard_repo = lrepo, purple_repo = p,
            purple_owner = hd (split CHR ''/'' p), status = st, pr_number = None, pr_url = url,
            results_json = (if py_truthy res then Some (json_dumps env res) else None),
            error_message = err\<rparr>]\<rparr>)"
  by (simp add: record_submission_def bind_def create_submission_unseen return_def)

lemma unseen_db: "db w1 = db w \<Longrightarrow> unseen w rid \<Longrightarrow> unseen w1 rid"
  by (simp add: unseen_def db_def)

lemma create_submission_seen:
  assumes "create_submission env rid lrepo prepo powner st err url num res w = (Inr row, w')"
  shows "leaderboards w' = leaderboards w \<and> \<not> unseen w' rid"
  using assms
  by (auto simp: create_submission_def unseen_def Let_def find_None_iff split: if_splits)

lemma record_submission_seen:
  assumes "record_submission env rid lrepo pr st err url res w = (Inr u, w')"
  shows "leaderboards w' = leaderboards w \<and> \<not> unseen w' rid"
  using assms unfolding record_submission_def
  by (auto elim!: bind_InrE dest: create_submission_seen)

lemma writes_row_after:
  assumes "keeps db m" and "\<And>x. writes_row rid (f x)"
  shows "writes_row rid (bind m f)"
  unfolding writes_row_def
proof (intro allI impI)
  fix w r w'
  assume "bind m f w = (Inr r, w')"
  then obtain x w1 where m: "m w = (Inr x, w1)" and f: "f x w1 = (Inr r, w')"
    by (rule bind_InrE)
  have "db w1 = db w" using assms(1) m by (rule keepsD)
  moreover have "leaderboards w' = leaderboards w1 \<and> \<not> unseen w' rid"
    using assms(2) f by (auto simp: writes_row_def)
  ultimately show "leaderboards w' = leaderboards w \<and> \<not> unseen w' rid"
    by (simp add: db_def)
qed

lemma writes_row_record:
  "writes_row rid (bind (record_submission env rid lrepo pr st err url res) (\<lambda>_. return x))"
  unfolding writes_row_def
  by (auto elim!: bind_InrE dest: record_submission_seen)

lemma writes_row_if:
  "writes_row rid a \<Longrightarrow> writes_row rid b \<Longrightarrow> writes_row rid (if c then a else b)"
  by simp

lemma writes_row_case_prod:
  "(\<And>a b c. writes_row rid (f a b c)) \<Longrightarrow> writes_row rid (case t of (a, b, c) \<Rightarrow> f a b c)"
  by (simp split: prod.splits)

lemma writes_row_submit_phase: "writes_row rid (submit_phase env payload lb rid pr)"
  unfolding submit_phase_def
  by (intro writes_row_after [OF keeps_lift] writes_row_after [OF keeps_db_download]
        writes_row_after [OF keeps_db_create_submission_pr] writes_row_record
        writes_row_if writes_row_case_prod)

lemma submit_phase_seen:
  assumes "submit_phase env payload lb rid pr w = (Inr r, w')"
  shows "leaderboards w' = leaderboards w \<and> \<not> unseen w' rid"
  using writes_row_submit_phase assms unfolding writes_row_def by blast

section \<open>The three ways a submission ends\<close>

lemma submit_phase_no_artifact:
  assumes "installed payload inst" and "unseen w rid"
    and "download_submission_artifact env inst (JStr p) rid w = (Inr data, w1)"
    and "data = None \<or> data = Some []"
  shows "submit_phase env payload lb rid (JStr p) w =
     (Inr (reply ERROR ''no artifact''),
      w1\<lparr>submissions := submissions w @
        [\<lparr>workflow_run_id = rid, leaderboard_repo = repo_full_name lb, purple_repo = p,
            purple_owner = hd (split CHR ''/'' p), status = ''failed'', pr_number = None,
            pr_url = JNull, results_json = None, error_message = Some ''No artifact found''\<rparr>]\<rparr>)"
proof -
  from assms(1) obtain installation where
    i: "dict_item payload ''installation'' = Inr installation"
       "py_item installation ''id'' = Inr inst"
    unfolding installed_def by (auto dest!: ebind_eq_Inr)
  have d: "db w1 = db w" using keeps_db_download assms(3) by (rule keepsD)
  then have u: "unseen w1 rid" using assms(2) by (rule unseen_db)
  from d have s: "submissions w1 = submissions w" by (simp add: db_def)
  show ?thesis
    unfolding submit_phase_def using assms(4)
    by (simp add: i bind_def assms(3) record_submission_unseen [OF u] return_def s)
qed

lemma submit_phase_rejected:
  assumes "installed payload inst" and "unseen w rid"
    and "download_submission_artifact env inst (JStr p) rid w = (Inr (Some z), w1)"
    and "z \<noteq> []"
    and "parse_artifact env z = Inr (results, manifest, scenario)"
    and "py_get manifest ''target_leaderboard'' JNull = Inr target"
    and "target \<noteq> JStr (repo_full_name lb)"
  shows "submit_phase env payload lb rid (JStr p) w =
     (Inr (reply REJECTED ''target mismatch''),
      w1\<lparr>submissions := submissions w @
        [\<lparr>workflow_run_id = rid, leaderboard_repo = repo_full_name lb, purple_repo = p,
            purple_owner = hd (split CHR ''/'' p), status = ''rejected'', pr_number = None,
            pr_url = JNull, results_json = None, error_message = Some ''Target mismatch''\<rparr>]\<rparr>)"
proof -
  from assms(1) obtain installation where
    i: "dict_item payload ''installation'' = Inr installation"
       "py_item installation ''id'' = Inr inst"
    unfolding installed_def by (auto dest!: ebind_eq_Inr)
  have d: "db w1 = db w" using keeps_db_download assms(3) by (rule keepsD)
  then have u: "unseen w1 rid" using assms(2) by (rule unseen_db)
  from d have s: "submissions w1 = submissions w" by (simp add: db_def)
  show ?thesis
    unfolding submit_phase_def using assms(4,7)
    by (simp add: i bind_def assms(3) assms(5,6) lift_def
          record_submission_unseen [OF u] return_def s)
qed

lemma submit_phase_submitted:
  assumes "installed payload inst" and "unseen w rid"
    and "download_submission_artifact env inst (JStr p) rid w = (Inr (Some z), w1)"
    and "z \<noteq> []"
    and "parse_artifact env z = Inr (results, manifest, scenario)"
    and "py_get manifest ''target_leaderboard'' JNull = Inr (JStr (repo_full_name lb))"
    and "create_submission_pr env lb manifest results scenario rid w1 = (Inr url, w2)"
  shows "submit_phase env payload lb rid (JStr p) w =
     (Inr (JObj [(''status'', JStr ''ok''), (''pr_url'', url)]),
      w2\<lparr>submissions := submissions w @
        [\<lparr>workflow_run_id = rid, leaderboard_repo = repo_full_name lb, purple_repo = p,
            purple_owner = hd (split CHR ''/'' p), status = ''submitted'', pr_number = None,
            pr_url = url,
            results_json = (if py_truthy results then Some (json_dumps env results) else None),
            error_message = None\<rparr>]\<rparr>)"
proof -
  from assms(1) obtain installation where
    i: "dict_item payload ''installation'' = Inr installation"
       "py_item installation ''id'' = Inr inst"
    unfolding installed_def by (auto dest!: ebind_eq_Inr)
  have d1: "db w1 = db w" using keeps_db_download assms(3) by (rule keepsD)
  have d2: "db w2 = db w1" using keeps_db_create_submission_pr assms(7) by (rule keepsD)
  from d1 d2 have "db w2 = db w" by simp
  then have u: "unseen w2 rid" using assms(2) by (rule unseen_db)
  from d1 d2 have s: "submissions w2 = submissions w" by (simp add: db_def)
  show ?thesis
    unfolding submit_phase_def using assms(4)
    by (simp add: i bind_def assms(3) assms(5,6) assms(7) lift_def
          record_submission_unseen [OF u] return_def s)
qed

section \<open>Looking for the artifact\<close>

lemma download_loop_no_match:
  "\<forall>a\<in>set entries. \<exists>n. py_item a ''name'' = Inr n \<and> n \<noteq> JStr ''agentbeats-submission'' \<Longrightarrow>
   download_submission_artifact_loop env inst repo entries w = (Inr None, w)"
  by (induction entries) (auto simp: return_def)

lemma download_no_match:
  assumes "on_get_artifacts env (github_calls w) inst repo rid = Inr artifacts"
    and "listed_artifacts artifacts = Inr entries"
    and "\<forall>a\<in>set entries. \<exists>n. py_item a ''name'' = Inr n \<and> n \<noteq> JStr ''agentbeats-submission''"
  shows "download_submission_artifact env inst repo rid w =
     (Inr None, w\<lparr>github_calls := github_calls w @ [GetArtifacts inst repo rid]\<rparr>)"
proof -
  from assms(2) obtain listed where
    l: "py_get artifacts ''artifacts'' (JList []) = Inr listed" "py_iter listed = Inr entries"
    unfolding listed_artifacts_def by (auto dest!: ebind_eq_Inr)
  show ?thesis
    unfolding download_submission_artifact_def
    by (simp add: bind_def get_artifacts_def assms(1) l lift_def
          download_loop_no_match [OF assms(3)])
qed

lemma download_loop_first_match:
  assumes "\<forall>x\<in>set before. \<exists>n. py_item x ''name'' = Inr n \<and> n \<noteq> JStr ''agentbeats-submission''"
    and "py_item a ''name'' = Inr (JStr ''agentbeats-submission'')"
    and "py_item a ''id'' = Inr aid"
  shows "download_submission_artifact_loop env inst repo (before @ a # after) w =
           download_artifact env inst repo aid w"
  using assms(1) by (induction before) (auto simp: assms(2,3))

lemma download_offered:
  assumes "offers env w inst repo rid aid data"
  shows "download_submission_artifact env inst repo rid w =
     (Inr data,
      w\<lparr>github_calls := github_calls w @
           [GetArtifacts inst repo rid, DownloadArtifact inst repo aid]\<rparr>)"
proof -
  from assms obtain artifacts before a after where
    g: "on_get_artifacts env (github_calls w) inst repo rid = Inr artifacts"
    and l: "listed_artifacts artifacts = Inr (before @ a # after)"
    and b: "\<forall>x\<in>set before. \<exists>n. py_item x ''name'' = Inr n \<and> n \<noteq> JStr ''agentbeats-submission''"
    and n: "py_item a ''name'' = Inr (JStr ''agentbeats-submission'')"
    and i: "py_item a ''id'' = Inr aid"
    and d: "on_download_artifact env (github_calls w @ [GetArtifacts inst repo rid]) inst repo aid
          = Inr data"
    unfolding offers_def by blast
  from l obtain listed where
    l': "py_get artifacts ''artifacts'' (JList []) = Inr listed" "py_iter listed = Inr (before @ a # after)"
    unfolding listed_artifacts_def by (auto dest!: ebind_eq_Inr)
  show ?thesis
    unfolding download_submission_artifact_def
    by (simp add: bind_def get_artifacts_def g l' lift_def
          download_loop_first_match [OF b n i] download_artifact_def d)
qed

section \<open>Reading the archive\<close>

lemma endswith_append [simp]: "endswith (pre @ suf) suf"
  by (simp add: endswith_def)

lemma endswith_iff: "endswith s suf \<longleftrightarrow> (\<exists>pre. s = pre @ suf)"
proof
  assume "endswith s suf"
  then have "s = take (length s - length suf) s @ suf"
    by (metis append_take_drop_id endswith_def)
  then show "\<exists>pre. s = pre @ suf" ..
next
  assume "\<exists>pre. s = pre @ suf"
  then show "endswith s suf" by auto
qed

lemma endswith_both:
  assumes "endswith n a" and "endswith n b" and "length a \<le> length b"
  shows "endswith b a"
proof -
  from assms(1) obtain p where p: "n = p @ a" by (auto simp: endswith_iff)
  from assms(2) obtain q where q: "n = q @ b" by (auto simp: endswith_iff)
  from p q have "p @ a = q @ b" by simp
  with assms(3) obtain r where "b = r @ a"
    by (auto simp: append_eq_append_conv2)
  then show ?thesis by simp
qed

lemma not_both_json: "endswith n ''results.json'' \<Longrightarrow> \<not> endswith n ''manifest.json''"
proof
  assume "endswith n ''results.json''" and "endswith n ''manifest.json''"
  then have "endswith ''manifest.json'' ''results.json''"
    by (rule endswith_both) simp
  then show False by (simp add: endswith_def)
qed

lemma not_results_toml: "endswith n ''results.json'' \<Longrightarrow> \<not> endswith n ''scenario.toml''"
proof
  assume "endswith n ''results.json''" and "endswith n ''scenario.toml''"
  then have "endswith ''scenario.toml'' ''results.json''"
    by (rule endswith_both) simp
  then show False by (simp add: endswith_def)
qed

lemma not_manifest_toml: "endswith n ''manifest.json'' \<Longrightarrow> \<not> endswith n ''scenario.toml''"
proof
  assume "endswith n ''manifest.json''" and "endswith n ''scenario.toml''"
  then have "endswith ''scenario.toml'' ''manifest.json''"
    by (rule endswith_both) simp
  then show False by (simp add: endswith_def)
qed

lemma last_match_Nil [simp]: "last_match suf [] = None"
  by (simp add: last_match_def)

lemma last_match_Cons:
  "last_match suf (n # ns) =
     (case last_match suf ns of
        Some x \<Rightarrow> Some x
      | None \<Rightarrow> if endswith n suf then Some n else None)"
  by (simp add: last_match_def split: list.splits)

lemma read_jsonD:
  "read_json env z n = Inr v \<Longrightarrow> \<exists>d. zip_read env z n = Inr d \<and> json_loads env d = Inr v"
  unfolding read_json_def by (rule ebind_eq_Inr)

lemma read_textD:
  "read_text env z n = Inr v \<Longrightarrow> \<exists>d. zip_read env z n = Inr d \<and> decode_utf8 env d = Inr v"
  unfolding read_text_def by (rule ebind_eq_Inr)

lemma parse_artifact_loop_last:
  assumes "\<forall>n\<in>set names. endswith n ''results.json'' \<or> endswith n ''manifest.json'' \<longrightarrow>
             read_json env z n = Inr (doc n)"
    and "\<forall>n\<in>set names. endswith n ''scenario.toml'' \<longrightarrow> read_text env z n = Inr (txt n)"
  shows "parse_artifact_loop env z names (r, m, s) =
     Inr (case last_match ''results.json'' names of None \<Rightarrow> r | Some n \<Rightarrow> doc n,
          case last_match ''manifest.json'' names of None \<Rightarrow> m | Some n \<Rightarrow> doc n,
          case last_match ''scenario.toml'' names of None \<Rightarrow> s | Some n \<Rightarrow> txt n)"
  using assms
proof (induction names arbitrary: r m s)
  case Nil
  then show ?case by simp
next
  case (Cons n ns)
  have ih: "\<And>r m s. parse_artifact_loop env z ns (r, m, s) =
     Inr (case last_match ''results.json'' ns of None \<Rightarrow> r | Some n \<Rightarrow> doc n,
          case last_match ''manifest.json'' ns of None \<Rightarrow> m | Some n \<Rightarrow> doc n,
          case last_match ''scenario.toml'' ns of None \<Rightarrow> s | Some n \<Rightarrow> txt n)"
    using Cons by simp
  consider (results) "endswith n ''results.json''"
    | (manifest) "\<not> endswith n ''results.json''" "endswith n ''manifest.json''"
    | (scenario) "\<not> endswith n ''results.json''" "\<not> endswith n ''manifest.json''"
        "endswith n ''scenario.toml''"
    | (other) "\<not> endswith n ''results.json''" "\<not> endswith n ''manifest.json''"
        "\<not> endswith n ''scenario.toml''"
    by blast
  then show ?case
  proof cases
    case results
    then obtain d where "zip_read env z n = Inr d" "json_loads env d = Inr (doc n)"
      using Cons.prems(1) by (auto dest: read_jsonD)
    with results show ?thesis
      by (simp add: ih last_match_Cons not_both_json not_results_toml split: option.splits)
  next
    case manifest
    then obtain d where "zip_read env z n = Inr d" "json_loads env d = Inr (doc n)"
      using Cons.prems(1) by (auto dest: read_jsonD)
    with manifest show ?thesis
      by (simp add: ih last_match_Cons not_manifest_toml split: option.splits)
  next
    case scenario
    then obtain d where "zip_read env z n = Inr d" "decode_utf8 env d = Inr (txt n)"
      using Cons.prems(2) by (auto dest: read_textD)
    with scenario show ?thesis
      by (simp add: ih last_match_Cons split: option.splits)
  next
    case other
    then show ?thesis
      by (simp add: ih last_match_Cons split: option.splits)
  qed
qed

section \<open>Rejection\<close>

lemma handle_rejects:
  assumes "accepted payload run w rid (JStr p) lb" and "unseen w rid" and "installed payload inst"
    and "download_submission_artifact env inst (JStr p) rid w = (Inr (Some z), w1)"
    and "z \<noteq> []"
    and "parse_artifact env z = Inr (results, manifest, scenario)"
    and "py_get manifest ''target_leaderboard'' JNull = Inr target"
    and "target \<noteq> JStr (repo_full_name lb)"
  shows "handle_workflow_run env payload w =
     (Inr (reply REJECTED ''target mismatch''),
      w1\<lparr>submissions := submissions w @
        [\<lparr>workflow_run_id = rid, leaderboard_repo = repo_full_name lb, purple_repo = p,
            purple_owner = hd (split CHR ''/'' p), status = ''rejected'', pr_number = None,
            pr_url = JNull, results_json = None, error_message = Some ''Target mismatch''\<rparr>]\<rparr>)"
  unfolding handle_accepted_unseen [OF assms(1,2)]
  using assms(3) assms(2) assms(4-8) by (rule submit_phase_rejected)

section \<open>The sample event\<close>

lemma sample_accepted: "accepted payload0 run0 world0 (JInt 42) (JStr ''alice/agent'') bar_board"
  by (simp add: accepted_def successful_run_def completed_run_def payload0_def payload_of_def
        run0_def dict_get_def dict_item_def referenced_def find_leaderboard_def
        loop_miss [OF sample_miss] loop_hit [OF sample_hit])

lemma sample_installed: "installed payload0 (JInt 7)"
  by (simp add: installed_def payload0_def payload_of_def dict_item_def)

lemma sample_unseen: "unseen world0 (JInt 42)"
  by (simp add: unseen_def world0_def)

lemma sample_parse: "parse_artifact env0 [0x50, 0x4B] = Inr (results0, manifest_for ''B/bar'', ''a=1'')"
  by (simp add: parse_artifact_def env0_def env_for_def endswith_def)

lemma sample_download:
  "download_submission_artifact (env_for names target unique) (JInt 7) (JStr ''alice/agent'') (JInt 42) w =
     (Inr (Some [0x50, 0x4B]),
      w\<lparr>github_calls := github_calls w @
          [GetArtifacts (JInt 7) (JStr ''alice/agent'') (JInt 42),
           DownloadArtifact (JInt 7) (JStr ''alice/agent'') (JInt 9)]\<rparr>)"
  by (simp add: download_submission_artifact_def env_for_def bind_def get_artifacts_def
        download_artifact_def dict_get_def dict_item_def lift_def)

lemma sample_publish:
  "fst (create_submission_pr (env_for names target unique) bar_board (manifest_for t) results
          scenario (JInt 42) w)
   = Inr (JStr ''https://github.com/B/bar/pull/1'')"
  by (simp add: create_submission_pr_def env_for_def bind_def lift_def manifest_for_def
        dict_item_def create_branch_def commit_files_def create_pull_request_def
        format_pr_body_def)

lemma sample_handle_submitted:
  assumes "parse_artifact (env_for names target unique) [0x50, 0x4B] = Inr (results, manifest_for ''B/bar'', scenario)"
  shows "fst (handle_workflow_run (env_for names target unique) payload0 world0)
     = Inr (JObj [(''status'', JStr ''ok''), (''pr_url'', JStr ''https://github.com/B/bar/pull/1'')])
   \<and> submissions (snd (handle_workflow_run (env_for names target unique) payload0 world0))
     = [\<lparr>workflow_run_id = JInt 42, leaderboard_repo = ''B/bar'', purple_repo = ''alice/agent'',
         purple_owner = ''alice'', status = ''submitted'', pr_number = None,
         pr_url = JStr ''https://github.com/B/bar/pull/1'',
         results_json = (if py_truthy results then Some (py_repr results) else None),
         error_message = None\<rparr>]"
proof -
  let ?env = "env_for names target unique"
  let ?w1 = "world0\<lparr>github_calls := github_calls world0 @
          [GetArtifacts (JInt 7) (JStr ''alice/agent'') (JInt 42),
           DownloadArtifact (JInt 7) (JStr ''alice/agent'') (JInt 9)]\<rparr>"
  let ?pr = "create_submission_pr ?env bar_board (manifest_for ''B/bar'') results scenario (JInt 42) ?w1"
  have t: "py_get (manifest_for ''B/bar'') ''target_leaderboard'' JNull
           = Inr (JStr (repo_full_name bar_board))"
    by (simp add: manifest_for_def dict_get_def bar_board_def)
  have c: "?pr = (Inr (JStr ''https://github.com/B/bar/pull/1''), snd ?pr)"
    using sample_publish [of names target unique "''B/bar''" results scenario ?w1]
    by (simp add: prod_eq_iff)
  have z: "[0x50, 0x4B] \<noteq> ([] :: bytes)" by simp
  note h = submit_phase_submitted [OF sample_installed sample_unseen sample_download z assms t c]
  show ?thesis
    unfolding handle_accepted_unseen [OF sample_accepted sample_unseen] h
    by (simp add: world0_def bar_board_def env_for_def)
qed

lemma sample_handle_rejected:
  assumes "parse_artifact (env_for names target unique) [0x50, 0x4B] = Inr (results, manifest, scenario)"
    and "py_get manifest ''target_leaderboard'' JNull = Inr t" and "t \<noteq> JStr ''B/bar''"
  shows "handle_workflow_run (env_for names target unique) payload0 world0 =
     (Inr (reply REJECTED ''target mismatch''),
      \<lparr>leaderboards = [bar_board],
       submissions =
         [\<lparr>workflow_run_id = JInt 42, leaderboard_repo = ''B/bar'', purple_repo = ''alice/agent'',
           purple_owner = ''alice'', status = ''rejected'', pr_number = None,
           pr_url = JNull, results_json = None, error_message = Some ''Target mismatch''\<rparr>],
       github_calls =
         [GetArtifacts (JInt 7) (JStr ''alice/agent'') (JInt 42),
          DownloadArtifact (JInt 7) (JStr ''alice/agent'') (JInt 9)]\<rparr>)"
proof -
  have z: "[0x50, 0x4B] \<noteq> ([] :: bytes)" by simp
  have t: "t \<noteq> JStr (repo_full_name bar_board)"
    using assms(3) by (simp add: bar_board_def)
  show ?thesis
    unfolding handle_rejects [OF sample_accepted sample_unseen sample_installed sample_download z assms(1,2) t]
    by (simp add: world0_def bar_board_def)
qed

lemma sample_parse_other:
  "parse_artifact (env_for [''run/results.json'', ''run/manifest.json'', ''run/scenario.toml'']
      ''other/repo'' unique) [0x50, 0x4B]
   = Inr (results0, manifest_for ''other/repo'', ''a=1'')"
  by (simp add: parse_artifact_def env_for_def endswith_def)

lemma sample_other_target:
  "py_get (manifest_for ''other/repo'') ''target_leaderboard'' JNull = Inr (JStr ''other/repo'')"
  by (simp add: manifest_for_def dict_get_def)

lemma sample_rejected:
  "handle_workflow_run (env_for [''run/results.json'', ''run/manifest.json'', ''run/scenario.toml'']
      ''other/repo'' unique) payload0 world0 =
     (Inr (reply REJECTED ''target mismatch''), world_rejected)"
  using sample_handle_rejected [OF sample_parse_other sample_other_target]
  by (simp add: world_rejected_def rejected_row_def)

lemma sample_check: 
  "check_phase payload0 world0 = (Inr (Inr (bar_board, JInt 42, JStr ''alice/agent'')), world0)"
  using check_phase_accepted [OF sample_accepted] sample_unseen by (simp add: unseen_def)

lemma sample_submit_first:
  "submit_phase (env_for [''run/results.json'', ''run/manifest.json'', ''run/scenario.toml'']
      ''other/repo'' unique) payload0 bar_board (JInt 42) (JStr ''alice/agent'') world0
   = (Inr (reply REJECTED ''target mismatch''), world_rejected)"
  using sample_rejected [of unique]
  by (simp add: handle_accepted_unseen [OF sample_accepted sample_unseen])

lemma sample_submit_second:
  "submit_phase (env_for [''run/results.json'', ''run/manifest.json'', ''run/scenario.toml'']
      ''other/repo'' unique) payload0 bar_board (JInt 42) (JStr ''alice/agent'') world_rejected
   = (if unique then (Inl UniqueViolationError, world_refused)
      else (Inr (reply REJECTED ''target mismatch''), world_twice))"
proof -
  let ?env = "env_for [''run/results.json'', ''run/manifest.json'', ''run/scenario.toml''] ''other/repo'' unique"
  have u: "unique_run_id ?env = unique" by (simp add: env_for_def)
  have i: "dict_item payload0 ''installation'' = Inr (JObj [(''id'', JInt 7)])"
    by (simp add: payload0_def payload_of_def dict_item_def)
  have j: "py_item (JObj [(''id'', JInt 7)]) ''id'' = Inr (JInt 7)"
    by (simp add: dict_item_def)
  show ?thesis
    unfolding submit_phase_def
    by (simp add: payload0_def payload_of_def dict_item_def bind_def lift_def sample_download sample_parse_other
          sample_other_target bar_board_def record_submission_def create_submission_def u
          return_def world_rejected_def world_twice_def world_refused_def rejected_row_def
          Let_def)
qed

lemma parse_no_results:
  "parse_artifact env_no_results [0x50, 0x4B] = Inr (JObj [], manifest_for ''B/bar'', ''a=1'')"
  by (simp add: parse_artifact_def env_no_results_def env_for_def endswith_def)

lemma parse_other:
  "parse_artifact env_other [0x50, 0x4B] = Inr (results0, manifest_for ''other/repo'', ''a=1'')"
  by (simp add: parse_artifact_def env_other_def env_for_def endswith_def)

lemma parse_no_manifest:
  "parse_artifact env_no_manifest [0x50, 0x4B] = Inr (results0, JObj [], ''a=1'')"
  by (simp add: parse_artifact_def env_no_manifest_def env_for_def endswith_def)

lemma sample_offers:
  "offers (env_for names target unique) world0 (JInt 7) (JStr ''alice/agent'') (JInt 42) (JInt 9)
     (Some [0x50, 0x4B])"
  unfolding offers_def
  apply (rule exI [where x = "JObj [(''artifacts'',
                 JList [JObj [(''name'', JStr ''logs''), (''id'', JInt 8)],
                        JObj [(''name'', JStr ''agentbeats-submission''), (''id'', JInt 9)]])]"])
  apply (rule exI [where x = "[JObj [(''name'', JStr ''logs''), (''id'', JInt 8)]]"])
  apply (rule exI [where x = "JObj [(''name'', JStr ''agentbeats-submission''), (''id'', JInt 9)]"])
  apply (rule exI [where x = "[]"])
  apply (simp add: env_for_def listed_artifacts_def dict_get_def dict_item_def)
  done

section \<open>The claims\<close>

text \<open>
  C1, as amended. For an event that passes the guards (a completed, successful run whose
  references resolve to a registered leaderboard) and has no submission on record, whose
  artifact listing has an entry named exactly "agentbeats-submission" whose download is a
  non-empty archive, whose manifest names the resolved leaderboard as its target, and whose
  publication returns a URL: the handler appends exactly one submission, with status
  \<open>submitted\<close>, that URL as its \<open>pr_url\<close>, and as its results the serialised results
  document when that document is non-empty and nothing when it is empty; it returns \<open>ok\<close>
  with the same URL.
\<close>

theorem submitted_once:
  assumes "accepted payload run w rid (JStr p) lb" and "unseen w rid" and "installed payload inst"
    and "offers env w inst (JStr p) rid aid (Some z)"
    and "z \<noteq> []"
    and "parse_artifact env z = Inr (results, manifest, scenario)"
    and "py_get manifest ''target_leaderboard'' JNull = Inr (JStr (repo_full_name lb))"
    and "create_submission_pr env lb manifest results scenario rid
           (w\<lparr>github_calls := github_calls w @
               [GetArtifacts inst (JStr p) rid, DownloadArtifact inst (JStr p) aid]\<rparr>)
         = (Inr url, w')"
  shows "handle_workflow_run env payload w =
     (Inr (JObj [(''status'', JStr ''ok''), (''pr_url'', url)]),
      w'\<lparr>submissions := submissions w @
        [\<lparr>workflow_run_id = rid, leaderboard_repo = repo_full_name lb, purple_repo = p,
            purple_owner = hd (split CHR ''/'' p), status = ''submitted'', pr_number = None,
            pr_url = url,
            results_json = (if py_truthy results then Some (json_dumps env results) else None),
            error_message = None\<rparr>]\<rparr>)"
  unfolding handle_accepted_unseen [OF assms(1,2)]
  using assms(3) assms(2) download_offered [OF assms(4)] assms(5-8)
  by (rule submit_phase_submitted)

theorem submitted_once_witness:
  "fst (handle_workflow_run env0 payload0 world0)
     = Inr (JObj [(''status'', JStr ''ok''), (''pr_url'', JStr ''https://github.com/B/bar/pull/1'')])
   \<and> submissions (snd (handle_workflow_run env0 payload0 world0))
     = [\<lparr>workflow_run_id = JInt 42, leaderboard_repo = ''B/bar'', purple_repo = ''alice/agent'',
         purple_owner = ''alice'', status = ''submitted'', pr_number = None,
         pr_url = JStr ''https://github.com/B/bar/pull/1'',
         results_json = Some (py_repr results0), error_message = None\<rparr>]"
proof -
  let ?w1 = "world0\<lparr>github_calls := github_calls world0 @
          [GetArtifacts (JInt 7) (JStr ''alice/agent'') (JInt 42),
           DownloadArtifact (JInt 7) (JStr ''alice/agent'') (JInt 9)]\<rparr>"
  let ?pr = "create_submission_pr env0 bar_board (manifest_for ''B/bar'') results0 ''a=1'' (JInt 42) ?w1"
  have o: "offers env0 world0 (JInt 7) (JStr ''alice/agent'') (JInt 42) (JInt 9) (Some [0x50, 0x4B])"
    unfolding env0_def by (rule sample_offers)
  have t: "py_get (manifest_for ''B/bar'') ''target_leaderboard'' JNull
           = Inr (JStr (repo_full_name bar_board))"
    by (simp add: manifest_for_def dict_get_def bar_board_def)
  have c: "?pr = (Inr (JStr ''https://github.com/B/bar/pull/1''), snd ?pr)"
    using sample_publish [of _ _ _ "''B/bar''" results0 "''a=1''" ?w1]
    unfolding env0_def by (simp add: prod_eq_iff)
  have z: "[0x50, 0x4B] \<noteq> ([] :: bytes)" by simp
  show ?thesis
    using submitted_once [OF sample_accepted sample_unseen sample_installed o z sample_parse t c]
    by (simp add: world0_def bar_board_def env0_def env_for_def results0_def)
qed

text \<open>
  C1 as stated fails where the archive has no \<^verbatim>\<open>results.json\<close>: the extracted results
  document is the empty object, the submission is recorded as \<open>submitted\<close>, and its
  results are left unset, since \<^verbatim>\<open>create_submission\<close> stores
  \<^verbatim>\<open>json.dumps(results_json) if results_json else None\<close>.
\<close>

theorem empty_results_not_stored:
  "parse_artifact env_no_results [0x50, 0x4B] = Inr (JObj [], manifest_for ''B/bar'', ''a=1'')
   \<and> fst (handle_workflow_run env_no_results payload0 world0)
     = Inr (JObj [(''status'', JStr ''ok''), (''pr_url'', JStr ''https://github.com/B/bar/pull/1'')])
   \<and> map results_json (submissions (snd (handle_workflow_run env_no_results payload0 world0)))
     = [None]
   \<and> map results_json (submissions (snd (handle_workflow_run env_no_results payload0 world0)))
     \<noteq> [Some (json_dumps env_no_results (JObj []))]"
  using parse_no_results
    sample_handle_submitted [of _ _ _ "JObj []" "''a=1''",
      OF parse_no_results [unfolded env_no_results_def]]
  by (simp add: env_no_results_def)

text \<open>
  C2, as amended. When the event passes the guards and a submission for its run id is on
  record, whatever its status, the handler returns \<open>ignored\<close> with reason "duplicate" and
  leaves the world as it was: no submission is added and the GitHub client is not called.
  In particular, when one delivery has ended as \<open>ok\<close>, \<open>error\<close> or \<open>rejected\<close>, a later
  delivery of the same event, against any behaviour of GitHub, is ignored as a duplicate.
\<close>

theorem redelivery:
  "(accepted payload run w rid pr lb \<and> \<not> unseen w rid \<longrightarrow>
      handle_workflow_run env payload w = (Inr (reply IGNORED ''duplicate''), w))
   \<and> (handle_workflow_run env payload w = (Inr r, w') \<and>
      py_item r ''status'' \<noteq> Inr (JStr ''ignored'') \<longrightarrow>
      handle_workflow_run env' payload w' = (Inr (reply IGNORED ''duplicate''), w'))"
proof (intro conjI impI)
  assume "accepted payload run w rid pr lb \<and> \<not> unseen w rid"
  then show "handle_workflow_run env payload w = (Inr (reply IGNORED ''duplicate''), w)"
    by (auto intro: handle_duplicate)
next
  assume a: "handle_workflow_run env payload w = (Inr r, w') \<and>
      py_item r ''status'' \<noteq> Inr (JStr ''ignored'')"
  then obtain c w1 where c: "check_phase payload w = (Inr c, w1)"
    and s: "resume env payload c w1 = (Inr r, w')"
    by (auto simp: handle_phases elim!: bind_InrE)
  show "handle_workflow_run env' payload w' = (Inr (reply IGNORED ''duplicate''), w')"
  proof (cases c)
    case (Inl res)
    with s have "r = res" by (simp add: resume_def)
    with c Inl a show ?thesis by (auto dest: check_phase_early)
  next
    case (Inr t)
    obtain lb rid pr where t: "t = (lb, rid, pr)" by (cases t)
    from c Inr t obtain run where acc: "accepted payload run w rid pr lb" and "w1 = w"
      by (auto dest: check_phase_passed)
    with s Inr t have "submit_phase env payload lb rid pr w = (Inr r, w')"
      by (simp add: resume_def)
    then have "leaderboards w' = leaderboards w" and seen: "\<not> unseen w' rid"
      by (auto dest: submit_phase_seen)
    with acc have "accepted payload run w' rid pr lb"
      by (simp add: accepted_frame)
    then show ?thesis using seen by (rule handle_duplicate)
  qed
qed

theorem redelivery_witness:
  "handle_workflow_run env_other payload0 world0
     = (Inr (reply REJECTED ''target mismatch''), world_rejected)
   \<and> handle_workflow_run env0 payload0 world_rejected
     = (Inr (reply IGNORED ''duplicate''), world_rejected)"
proof -
  have 1: "handle_workflow_run env_other payload0 world0
     = (Inr (reply REJECTED ''target mismatch''), world_rejected)"
    unfolding env_other_def by (rule sample_rejected)
  have 2: "py_item (reply REJECTED ''target mismatch'') ''status'' \<noteq> Inr (JStr ''ignored'')"
    by (simp add: reply_def dict_item_def)
  have 3: "accepted payload0 run0 world_rejected (JInt 42) (JStr ''alice/agent'') bar_board"
    using sample_accepted by (rule accepted_frame) (simp add: world_rejected_def world0_def)
  have 4: "\<not> unseen world_rejected (JInt 42)"
    by (simp add: unseen_def world_rejected_def rejected_row_def)
  from redelivery [of payload0 run0 world_rejected "JInt 42" "JStr ''alice/agent''" bar_board env0]
    redelivery [of payload0 run0 world0 "JInt 42" "JStr ''alice/agent''" bar_board env_other
      "reply REJECTED ''target mismatch''" world_rejected env0]
    1 2 3 4
  show ?thesis by simp
qed

text \<open>
  C2 as stated also covers two deliveries that race. The handler has no lock and does not
  catch a failed insert, so when the second delivery passes its check before the first has
  written its row, the second one downloads the artifact again and is not ignored: without
  a uniqueness constraint on the run id it writes a second row, with one it ends in the
  exception of the insert.
\<close>

theorem race_not_ignored:
  "race env_other payload0 world0 =
     (Inr (reply REJECTED ''target mismatch''), Inr (reply REJECTED ''target mismatch''), world_twice)
   \<and> race env_other_unique payload0 world0 =
     (Inr (reply REJECTED ''target mismatch''), Inl UniqueViolationError, world_refused)"
  by (simp add: race_def sample_check resume_def env_other_def env_other_unique_def
        sample_submit_first sample_submit_second)

text \<open>
  C3. For an event that passes the guards and has no submission on record, whose artifact
  download is a non-empty archive with a manifest whose \<open>target_leaderboard\<close> is not the
  full name of the resolved leaderboard: the handler appends one submission with status
  \<open>rejected\<close> and error "Target mismatch", without PR number, PR URL or results, and
  returns \<open>rejected\<close> with reason "target mismatch"; the only calls of the GitHub client
  are the listing and the download, so no branch, commit or pull request is created.
\<close>

theorem target_mismatch_rejected:
  assumes "accepted payload run w rid (JStr p) lb" and "unseen w rid" and "installed payload inst"
    and "offers env w inst (JStr p) rid aid (Some z)"
    and "z \<noteq> []"
    and "parse_artifact env z = Inr (results, manifest, scenario)"
    and "py_get manifest ''target_leaderboard'' JNull = Inr target"
    and "target \<noteq> JStr (repo_full_name lb)"
  shows "handle_workflow_run env payload w =
     (Inr (reply REJECTED ''target mismatch''),
      w\<lparr>github_calls := github_calls w @
            [GetArtifacts inst (JStr p) rid, DownloadArtifact inst (JStr p) aid],
        submissions := submissions w @
        [\<lparr>workflow_run_id = rid, leaderboard_repo = repo_full_name lb, purple_repo = p,
            purple_owner = hd (split CHR ''/'' p), status = ''rejected'', pr_number = None,
            pr_url = JNull, results_json = None, error_message = Some ''Target mismatch''\<rparr>]\<rparr>)"
  using handle_rejects [OF assms(1-3) download_offered [OF assms(4)] assms(5-8)]
  by simp

theorem target_mismatch_rejected_witness:
  "handle_workflow_run env_other payload0 world0 =
     (Inr (reply REJECTED ''target mismatch''),
      \<lparr>leaderboards = [bar_board],
       submissions =
         [\<lparr>workflow_run_id = JInt 42, leaderboard_repo = ''B/bar'', purple_repo = ''alice/agent'',
           purple_owner = ''alice'', status = ''rejected'', pr_number = None,
           pr_url = JNull, results_json = None, error_message = Some ''Target mismatch''\<rparr>],
       github_calls =
         [GetArtifacts (JInt 7) (JStr ''alice/agent'') (JInt 42),
          DownloadArtifact (JInt 7) (JStr ''alice/agent'') (JInt 9)]\<rparr>)"
proof -
  have o: "offers env_other world0 (JInt 7) (JStr ''alice/agent'') (JInt 42) (JInt 9)
             (Some [0x50, 0x4B])"
    unfolding env_other_def by (rule sample_offers)
  have z: "[0x50, 0x4B] \<noteq> ([] :: bytes)" by simp
  have g: "py_get (manifest_for ''other/repo'') ''target_leaderboard'' JNull = Inr (JStr ''other/repo'')"
    by (simp add: manifest_for_def dict_get_def)
  have t: "JStr ''other/repo'' \<noteq> JStr (repo_full_name bar_board)"
    by (simp add: bar_board_def)
  show ?thesis
    using target_mismatch_rejected [OF sample_accepted sample_unseen sample_installed o z
        parse_other g t]
    by (simp add: world0_def bar_board_def)
qed

text \<open>
  C4. For an event that passes the guards and has no submission on record, when no entry
  of the run's artifact listing has the name "agentbeats-submission" (a name that only
  starts or ends with it is another name): the handler lists the artifacts, downloads
  nothing, appends one submission with status \<open>failed\<close> and error "No artifact found",
  and returns \<open>error\<close> with reason "no artifact".
\<close>

theorem no_artifact_failed:
  assumes "accepted payload run w rid (JStr p) lb" and "unseen w rid" and "installed payload inst"
    and "on_get_artifacts env (github_calls w) inst (JStr p) rid = Inr artifacts"
    and "listed_artifacts artifacts = Inr entries"
    and "\<forall>a\<in>set entries. \<exists>n. py_item a ''name'' = Inr n \<and> n \<noteq> JStr ''agentbeats-submission''"
  shows "handle_workflow_run env payload w =
     (Inr (reply ERROR ''no artifact''),
      w\<lparr>github_calls := github_calls w @ [GetArtifacts inst (JStr p) rid],
        submissions := submissions w @
        [\<lparr>workflow_run_id = rid, leaderboard_repo = repo_full_name lb, purple_repo = p,
            purple_owner = hd (split CHR ''/'' p), status = ''failed'', pr_number = None,
            pr_url = JNull, results_json = None, error_message = Some ''No artifact found''\<rparr>]\<rparr>)"
  unfolding handle_accepted_unseen [OF assms(1,2)]
  using submit_phase_no_artifact [OF assms(3) assms(2) download_no_match [OF assms(4-6)]]
  by simp

theorem no_artifact_failed_witness:
  "handle_workflow_run env_similar payload0 world0 =
     (Inr (reply ERROR ''no artifact''),
      \<lparr>leaderboards = [bar_board],
       submissions =
         [\<lparr>workflow_run_id = JInt 42, leaderboard_repo = ''B/bar'', purple_repo = ''alice/agent'',
           purple_owner = ''alice'', status = ''failed'', pr_number = None,
           pr_url = JNull, results_json = None, error_message = Some ''No artifact found''\<rparr>],
       github_calls = [GetArtifacts (JInt 7) (JStr ''alice/agent'') (JInt 42)]\<rparr>)"
proof -
  have a: "on_get_artifacts env_similar (github_calls world0) (JInt 7) (JStr ''alice/agent'') (JInt 42)
           = Inr similar_artifacts"
    by (simp add: env_similar_def)
  have l: "listed_artifacts similar_artifacts =
     Inr [JObj [(''name'', JStr ''agentbeats-submission-logs''), (''id'', JInt 8)],
          JObj [(''name'', JStr ''my-agentbeats-submission''), (''id'', JInt 9)]]"
    by (simp add: listed_artifacts_def similar_artifacts_def dict_get_def)
  have n: "\<forall>a\<in>set [JObj [(''name'', JStr ''agentbeats-submission-logs''), (''id'', JInt 8)],
          JObj [(''name'', JStr ''my-agentbeats-submission''), (''id'', JInt 9)]].
        \<exists>n. py_item a ''name'' = Inr n \<and> n \<noteq> JStr ''agentbeats-submission''"
    by (simp add: dict_item_def)
  show ?thesis
    using no_artifact_failed [OF sample_accepted sample_unseen sample_installed a l n]
    by (simp add: world0_def bar_board_def)
qed

text \<open>
  C5. Resolution is first-match and follows the order of the references: when every
  reference before one that hits misses (its path has fewer than two segments, or its
  first two segments name no registered leaderboard), the resolver returns the leaderboard
  registered under exactly that name, whatever comes after it in the sequence, even an
  entry that could not be read; when every reference misses, it returns \<open>None\<close> and
  raises nothing. The world is left as it was.
\<close>

theorem find_leaderboard_first_match:
  "((\<forall>r\<in>set pre. miss w r) \<and> hit w ref l \<longrightarrow>
      find_leaderboard (JList (pre @ ref # post)) w = (Inr (Some l), w))
   \<and> ((\<forall>r\<in>set refs. miss w r) \<longrightarrow> find_leaderboard (JList refs) w = (Inr None, w))"
proof (intro conjI impI)
  assume "(\<forall>r\<in>set pre. miss w r) \<and> hit w ref l"
  then show "find_leaderboard (JList (pre @ ref # post)) w = (Inr (Some l), w)"
    by (simp add: find_leaderboard_def loop_all_miss loop_hit)
next
  assume "\<forall>r\<in>set refs. miss w r"
  then have "find_leaderboard_loop (refs @ []) w = find_leaderboard_loop [] w"
    by (rule loop_all_miss)
  then show "find_leaderboard (JList refs) w = (Inr None, w)"
    by (simp add: find_leaderboard_def return_def)
qed

theorem find_leaderboard_first_match_witness:
  "find_leaderboard
     (JList [workflow_ref ''A/foo/.github/workflows/runner.yml'',
             workflow_ref ''B/bar/.github/workflows/runner.yml'', JNull]) world0
     = (Inr (Some bar_board), world0)
   \<and> find_leaderboard
     (JList [workflow_ref ''A/foo/.github/workflows/runner.yml'', workflow_ref ''runner.yml'']) world0
     = (Inr None, world0)"
  using find_leaderboard_first_match
    [of "[workflow_ref ''A/foo/.github/workflows/runner.yml'']" world0
        "workflow_ref ''B/bar/.github/workflows/runner.yml''" bar_board "[JNull]"
        "[workflow_ref ''A/foo/.github/workflows/runner.yml'', workflow_ref ''runner.yml'']"]
    sample_miss sample_short sample_hit
  by simp

text \<open>
  C6. When every entry of the archive whose name ends with \<^verbatim>\<open>results.json\<close> or
  \<^verbatim>\<open>manifest.json\<close> can be read and parsed, and every entry whose name ends with
  \<^verbatim>\<open>scenario.toml\<close> can be read and decoded, extraction returns, for each of the three
  suffixes, the parsed document (the decoded text) of the last entry whose name ends with
  it, whatever path stands before the suffix, and the empty object (the empty string) when
  no name ends with it. The result is a function of the archive and the codecs alone:
  \<open>parse_artifact\<close> neither reads nor changes the world.
\<close>

theorem parse_artifact_extracts:
  assumes "zip_namelist env z = Inr names"
    and "\<forall>n\<in>set names. endswith n ''results.json'' \<or> endswith n ''manifest.json'' \<longrightarrow>
             read_json env z n = Inr (doc n)"
    and "\<forall>n\<in>set names. endswith n ''scenario.toml'' \<longrightarrow> read_text env z n = Inr (txt n)"
  shows "parse_artifact env z =
     Inr (case last_match ''results.json'' names of None \<Rightarrow> JObj [] | Some n \<Rightarrow> doc n,
          case last_match ''manifest.json'' names of None \<Rightarrow> JObj [] | Some n \<Rightarrow> doc n,
          case last_match ''scenario.toml'' names of None \<Rightarrow> [] | Some n \<Rightarrow> txt n)"
  unfolding parse_artifact_def
  by (simp add: assms(1) parse_artifact_loop_last [OF assms(2,3)])

theorem parse_artifact_extracts_witness:
  "parse_artifact env_roundtrip [0x50, 0x4B]
     = Inr (JObj [(''score'', JInt 1)], JObj [(''x'', JInt 1)], ''a=1'')
   \<and> parse_artifact env_empty [0x50, 0x4B] = Inr (JObj [], JObj [], [])"
proof -
  let ?names = "[''run/results.json'', ''run/manifest.json'', ''run/scenario.toml'']"
  let ?doc = "\<lambda>n. if n = ''run/results.json'' then JObj [(''score'', JInt 1)] else JObj [(''x'', JInt 1)]"
  have 1: "zip_namelist env_roundtrip [0x50, 0x4B] = Inr ?names"
    by (simp add: env_roundtrip_def env0_def env_for_def)
  have 2: "\<forall>n\<in>set ?names. endswith n ''results.json'' \<or> endswith n ''manifest.json'' \<longrightarrow>
             read_json env_roundtrip [0x50, 0x4B] n = Inr (?doc n)"
    by (simp add: env_roundtrip_def env0_def env_for_def read_json_def endswith_def)
  have 3: "\<forall>n\<in>set ?names. endswith n ''scenario.toml'' \<longrightarrow>
             read_text env_roundtrip [0x50, 0x4B] n = Inr ((\<lambda>n. ''a=1'') n)"
    by (simp add: env_roundtrip_def env0_def env_for_def read_text_def endswith_def)
  have 4: "zip_namelist env_empty [0x50, 0x4B] = Inr [''README.md'']"
    by (simp add: env_empty_def)
  have 5: "\<forall>n\<in>set [''README.md'']. endswith n ''results.json'' \<or> endswith n ''manifest.json'' \<longrightarrow>
             read_json env_empty [0x50, 0x4B] n = Inr (?doc n)"
    by (simp add: endswith_def)
  have 6: "\<forall>n\<in>set [''README.md'']. endswith n ''scenario.toml'' \<longrightarrow>
             read_text env_empty [0x50, 0x4B] n = Inr ((\<lambda>n. ''a=1'') n)"
    by (simp add: endswith_def)
  show ?thesis
    using parse_artifact_extracts [OF 1 2 3] parse_artifact_extracts [OF 4 5 6]
    by (simp add: last_match_def endswith_def)
qed

text \<open>
  The names that \<^verbatim>\<open>create_submission_pr\<close> derives, for any manifest with an owner and
  a timestamp that is a string: the first call creates the branch named after the run id,
  the second commits the three files under the path made of the owner and the first 15
  characters of the timestamp with \<open>:\<close> and \<open>T\<close> replaced by \<open>-\<close>.
\<close>

lemma publish_names:
  assumes "py_item manifest ''purple_agent_owner'' = Inr owner"
    and "py_item manifest ''timestamp'' = Inr (JStr ts)"
    and "on_create_branch env (github_calls w) (installation_id lb) (repo_full_name lb)
           (''agentbeats/submission-'' @ py_str run_id) ''main'' = Inr ()"
  shows "take 2 (drop (length (github_calls w))
           (github_calls (snd (create_submission_pr env lb manifest results scenario run_id w))))
     = [CreateBranch (installation_id lb) (repo_full_name lb)
          (''agentbeats/submission-'' @ py_str run_id) ''main'',
        CommitFiles (installation_id lb) (repo_full_name lb)
          (''agentbeats/submission-'' @ py_str run_id)
          [(''submissions/'' @ py_str owner @ ''/''
              @ take 15 (replace CHR ''T'' CHR ''-'' (replace CHR '':'' CHR ''-'' ts))
              @ ''/results.json'', json_dumps_indent2 env results),
           (''submissions/'' @ py_str owner @ ''/''
              @ take 15 (replace CHR ''T'' CHR ''-'' (replace CHR '':'' CHR ''-'' ts))
              @ ''/manifest.json'', json_dumps_indent2 env manifest),
           (''submissions/'' @ py_str owner @ ''/''
              @ take 15 (replace CHR ''T'' CHR ''-'' (replace CHR '':'' CHR ''-'' ts))
              @ ''/scenario.toml'', scenario)]
          (''[AgentBeats] Submission from '' @ py_str owner)]"
  using assms
  by (simp add: create_submission_pr_def bind_def lift_def create_branch_def commit_files_def
        create_pull_request_def branch_name_def submission_path_def
        split: sum.splits prod.splits)

text \<open>
  C7. The branch name is "agentbeats/submission-" followed by the run id and the storage
  path is "submissions/", the owner, "/" and the normalised timestamp, as claimed. The
  normalised timestamp is not as claimed: for "2024-01-02T03:04:05Z" the source computes
  "2024-01-02-03-0". The separators \<open>:\<close> and \<open>T\<close> are replaced by \<open>-\<close>, not stripped,
  and the cut after 15 characters falls inside the minute, so the prefix keeps the date, the
  hour and only the first digit of the minute.
\<close>

theorem timestamp_cut_inside_minute:
  "normalize_timestamp (JStr ''2024-01-02T03:04:05Z'') = Inr ''2024-01-02-03-0''
   \<and> take 2 (github_calls (snd (create_submission_pr env0 bar_board (manifest_for ''B/bar'')
         results0 ''a=1'' (JInt 42) world0)))
     = [CreateBranch 5 ''B/bar'' ''agentbeats/submission-42'' ''main'',
        CommitFiles 5 ''B/bar'' ''agentbeats/submission-42''
          [(''submissions/alice/2024-01-02-03-0/results.json'', py_repr results0),
           (''submissions/alice/2024-01-02-03-0/manifest.json'', py_repr (manifest_for ''B/bar'')),
           (''submissions/alice/2024-01-02-03-0/scenario.toml'', ''a=1'')]
          ''[AgentBeats] Submission from alice'']"
  by (simp add: create_submission_pr_def env0_def env_for_def bind_def lift_def manifest_for_def
        dict_item_def create_branch_def commit_files_def create_pull_request_def
        format_pr_body_def replace_def branch_name_def submission_path_def str_int_def
        world0_def bar_board_def)

text \<open>
  C8. The guards are tried in a fixed order and each answers with its own reason: an
  action other than \<open>completed\<close> is ignored as "not completed"; a completed run whose
  conclusion is not \<open>success\<close> is ignored as "conclusion=" followed by the conclusion as
  Python prints it; a successful run (with its id and its repository) whose list of
  referenced workflows is empty, null or absent is ignored as "no reusable workflows"; one
  whose references resolve to no leaderboard is ignored as "no registered leaderboard".
  In each case the world is returned as it was: no submission is written and the GitHub
  client is not called.
\<close>

theorem guards_in_order:
  "(dict_get payload ''action'' JNull \<noteq> JStr ''completed'' \<longrightarrow>
      handle_workflow_run env payload w = (Inr (reply IGNORED ''not completed''), w))
   \<and> (completed_run payload run \<and> dict_get run ''conclusion'' JNull \<noteq> JStr ''success'' \<longrightarrow>
      handle_workflow_run env payload w =
        (Inr (reply IGNORED (''conclusion='' @ py_str (dict_get run ''conclusion'' JNull))), w))
   \<and> (successful_run payload run run_id p_repo \<and> \<not> py_truthy (referenced run) \<longrightarrow>
      handle_workflow_run env payload w = (Inr (reply IGNORED ''no reusable workflows''), w))
   \<and> (successful_run payload run run_id p_repo \<and> py_truthy (referenced run) \<and>
      find_leaderboard (referenced run) w = (Inr None, w) \<longrightarrow>
      handle_workflow_run env payload w = (Inr (reply IGNORED ''no registered leaderboard''), w))"
proof (intro conjI impI)
  assume "dict_get payload ''action'' JNull \<noteq> JStr ''completed''"
  then show "handle_workflow_run env payload w = (Inr (reply IGNORED ''not completed''), w)"
    by (simp add: handle_phases check_phase_def resume_def return_def bind_def)
next
  assume "completed_run payload run \<and> dict_get run ''conclusion'' JNull \<noteq> JStr ''success''"
  then show "handle_workflow_run env payload w =
        (Inr (reply IGNORED (''conclusion='' @ py_str (dict_get run ''conclusion'' JNull))), w)"
    by (simp add: handle_phases check_phase_def completed_run_def resume_def return_def bind_def)
next
  assume a: "successful_run payload run run_id p_repo \<and> \<not> py_truthy (referenced run)"
  then obtain repository where
    "dict_item payload ''repository'' = Inr repository" "py_item repository ''full_name'' = Inr p_repo"
    by (auto simp: successful_run_def dest!: ebind_eq_Inr)
  with a show "handle_workflow_run env payload w = (Inr (reply IGNORED ''no reusable workflows''), w)"
    by (simp add: handle_phases check_phase_def successful_run_def completed_run_def
          referenced_def resume_def return_def bind_def)
next
  assume a: "successful_run payload run run_id p_repo \<and> py_truthy (referenced run) \<and>
      find_leaderboard (referenced run) w = (Inr None, w)"
  then obtain repository where
    "dict_item payload ''repository'' = Inr repository" "py_item repository ''full_name'' = Inr p_repo"
    by (auto simp: successful_run_def dest!: ebind_eq_Inr)
  with a show "handle_workflow_run env payload w = (Inr (reply IGNORED ''no registered leaderboard''), w)"
    by (simp add: handle_phases check_phase_def successful_run_def completed_run_def
          referenced_def resume_def return_def bind_def)
qed

lemma foreign_unresolved:
  "find_leaderboard (referenced foreign_run) world0 = (Inr None, world0)"
  by (simp add: referenced_def foreign_run_def dict_get_def find_leaderboard_def
        loop_miss [OF sample_miss] return_def)

theorem guards_in_order_witness:
  "handle_workflow_run env0 (payload_of ''requested'' run0) world0
     = (Inr (reply IGNORED ''not completed''), world0)
   \<and> handle_workflow_run env0 (payload_of ''completed'' failed_run) world0
     = (Inr (reply IGNORED ''conclusion=failure''), world0)
   \<and> handle_workflow_run env0 (payload_of ''completed'' bare_run) world0
     = (Inr (reply IGNORED ''no reusable workflows''), world0)
   \<and> handle_workflow_run env0 (payload_of ''completed'' foreign_run) world0
     = (Inr (reply IGNORED ''no registered leaderboard''), world0)"
  using guards_in_order [of "payload_of ''requested'' run0" env0 world0 run0 "JInt 42" "JStr ''alice/agent''"]
    guards_in_order [of "payload_of ''completed'' failed_run" env0 world0 failed_run "JInt 42" "JStr ''alice/agent''"]
    guards_in_order [of "payload_of ''completed'' bare_run" env0 world0 bare_run "JInt 42" "JStr ''alice/agent''"]
    guards_in_order [of "payload_of ''completed'' foreign_run" env0 world0 foreign_run "JInt 42" "JStr ''alice/agent''"]
    foreign_unresolved
  by (simp add: payload_of_def dict_get_def dict_item_def completed_run_def successful_run_def
        failed_run_def bare_run_def referenced_def foreign_run_def)

text \<open>
  C9. For an event that passes the guards and has no submission on record, whose artifact
  download is a non-empty archive with a manifest that is an object without the key
  \<open>target_leaderboard\<close> (the empty object that stands for a missing \<^verbatim>\<open>manifest.json\<close>
  included): the handler raises nothing; it appends one submission with status \<open>rejected\<close>
  and error "Target mismatch" and returns \<open>rejected\<close> with reason "target mismatch".
\<close>

theorem missing_target_rejected:
  assumes "accepted payload run w rid (JStr p) lb" and "unseen w rid" and "installed payload inst"
    and "offers env w inst (JStr p) rid aid (Some z)"
    and "z \<noteq> []"
    and "parse_artifact env z = Inr (results, JObj manifest, scenario)"
    and "map_of manifest ''target_leaderboard'' = None"
  shows "handle_workflow_run env payload w =
     (Inr (reply REJECTED ''target mismatch''),
      w\<lparr>github_calls := github_calls w @
            [GetArtifacts inst (JStr p) rid, DownloadArtifact inst (JStr p) aid],
        submissions := submissions w @
        [\<lparr>workflow_run_id = rid, leaderboard_repo = repo_full_name lb, purple_repo = p,
            purple_owner = hd (split CHR ''/'' p), status = ''rejected'', pr_number = None,
            pr_url = JNull, results_json = None, error_message = Some ''Target mismatch''\<rparr>]\<rparr>)"
proof -
  have g: "py_get (JObj manifest) ''target_leaderboard'' JNull = Inr JNull"
    using assms(7) by (simp add: dict_get_def)
  have t: "JNull \<noteq> JStr (repo_full_name lb)" by simp
  show ?thesis
    using handle_rejects [OF assms(1-3) download_offered [OF assms(4)] assms(5,6) g t]
    by simp
qed

theorem missing_target_rejected_witness:
  "parse_artifact env_no_manifest [0x50, 0x4B] = Inr (results0, JObj [], ''a=1'')
   \<and> handle_workflow_run env_no_manifest payload0 world0 =
     (Inr (reply REJECTED ''target mismatch''),
      \<lparr>leaderboards = [bar_board],
       submissions =
         [\<lparr>workflow_run_id = JInt 42, leaderboard_repo = ''B/bar'', purple_repo = ''alice/agent'',
           purple_owner = ''alice'', status = ''rejected'', pr_number = None,
           pr_url = JNull, results_json = None, error_message = Some ''Target mismatch''\<rparr>],
       github_calls =
         [GetArtifacts (JInt 7) (JStr ''alice/agent'') (JInt 42),
          DownloadArtifact (JInt 7) (JStr ''alice/agent'') (JInt 9)]\<rparr>)"
proof -
  have o: "offers env_no_manifest world0 (JInt 7) (JStr ''alice/agent'') (JInt 42) (JInt 9)
             (Some [0x50, 0x4B])"
    unfolding env_no_manifest_def by (rule sample_offers)
  have z: "[0x50, 0x4B] \<noteq> ([] :: bytes)" by simp
  have g: "map_of ([] :: (string \<times> json) list) ''target_leaderboard'' = None" by simp
  show ?thesis
    using missing_target_rejected [OF sample_accepted sample_unseen sample_installed o z
        parse_no_manifest g] parse_no_manifest
    by (simp add: world0_def bar_board_def)
qed

text \<open>
  C10. The resolver asks nothing of a path beyond its first two segments: a reference
  whose path splits into \<open>a\<close>, \<open>b\<close> and any further segments, none at all included,
  is looked up under \<open>a/b\<close>, and it resolves exactly as the bare reference \<open>a/b\<close> does.
\<close>

theorem bare_repo_resolves:
  assumes "py_item ref ''path'' = Inr (JStr p)" and "split CHR ''/'' p = a # b # rest"
  shows "find_leaderboard (JList (ref # refs)) w =
           (case registered w (a @ ''/'' @ b) of
              Some l \<Rightarrow> (Inr (Some l), w)
            | None \<Rightarrow> find_leaderboard (JList refs) w)
         \<and> find_leaderboard (JList (ref # refs)) w =
           find_leaderboard (JList (workflow_ref (a @ ''/'' @ b) # refs)) w"
proof -
  have "a \<in> set (split CHR ''/'' p)" "b \<in> set (split CHR ''/'' p)"
    using assms(2) by simp_all
  then have "CHR ''/'' \<notin> set a" "CHR ''/'' \<notin> set b"
    by (auto dest: split_parts_no_sep)
  then have "split CHR ''/'' (a @ ''/'' @ b) = [a, b]"
    by (simp add: split_append_sep split_no_sep)
  then have bare: "path_repo (a @ ''/'' @ b) = Some (a @ ''/'' @ b)"
    by (simp add: path_repo_def)
  have full: "path_repo p = Some (a @ ''/'' @ b)"
    using assms(2) by (simp add: path_repo_def)
  have item: "py_item (workflow_ref (a @ ''/'' @ b)) ''path'' = Inr (JStr (a @ ''/'' @ b))"
    by (simp add: dict_item_def workflow_ref_def)
  have 1: "find_leaderboard (JList (ref # refs)) w =
           (case registered w (a @ ''/'' @ b) of
              Some l \<Rightarrow> (Inr (Some l), w)
            | None \<Rightarrow> find_leaderboard (JList refs) w)"
    using assms(1) full by (simp add: find_leaderboard_def loop_step_path split: option.splits)
  have 2: "find_leaderboard (JList (workflow_ref (a @ ''/'' @ b) # refs)) w =
           (case registered w (a @ ''/'' @ b) of
              Some l \<Rightarrow> (Inr (Some l), w)
            | None \<Rightarrow> find_leaderboard (JList refs) w)"
    using item bare by (simp add: find_leaderboard_def loop_step_path split: option.splits)
  from 1 2 show ?thesis by simp
qed

theorem bare_repo_resolves_witness:
  "find_leaderboard (JList [workflow_ref ''B/bar'']) world0 = (Inr (Some bar_board), world0)
   \<and> find_leaderboard (JList [workflow_ref ''B/bar/.github/workflows/runner.yml'']) world0
     = find_leaderboard (JList [workflow_ref ''B/bar'']) world0"
  using bare_repo_resolves [of "workflow_ref ''B/bar''" "''B/bar''" "''B''" "''bar''" "[]" "[]" world0]
    bare_repo_resolves [of "workflow_ref ''B/bar/.github/workflows/runner.yml''"
      "''B/bar/.github/workflows/runner.yml''" "''B''" "''bar''"
      "[''.github'', ''workflows'', ''runner.yml'']" "[]" world0]
  by (simp add: workflow_ref_def dict_item_def registered_def world0_def bar_board_def)

end
